theory Spec2Isabelle
  imports Main "HOL-Library.Word"
begin

unbundle bit_operations_syntax

section \<open>Platform types\<close>

text \<open>
  The package \<open>outputduplication\<close> drives the DXGI desktop duplication interface. Its
  integers are modelled as follows: \<open>uint32\<close>, \<open>int32\<close> and \<open>HRESULT\<close> are 32-bit words
  (\<open>unat\<close>/\<open>uint\<close> read an unsigned value, \<open>sint\<close> a signed one); Go's \<open>int\<close> is the 64-bit
  integer of windows/amd64 and is modelled by a HOL \<open>int\<close> or \<open>nat\<close>, which is exact because
  every \<open>int\<close> the code computes indexes or measures a buffer that exists (the one allocation
  whose size could overflow, \<open>image.NewRGBA\<close>, panics in that case and is modelled so).
  A run-time panic (index out of range, nil dereference) is the result \<open>Panic\<close>.
\<close>

type_synonym byte = "8 word"
type_synonym uint32 = "32 word"
type_synonym int32 = "32 word"
type_synonym hresult = "32 word"

datatype 'a res = Panic | Ok 'a

text \<open>
  \<open>d3d.HRESULT.Failed\<close> and the two DXGI status codes the code compares with are declared
  in the package \<open>d3d\<close>, outside the file. They are the Windows SDK's: a failure is a
  negative \<open>HRESULT\<close>.
\<close>

definition Failed :: "hresult \<Rightarrow> bool" where
  "Failed hr \<longleftrightarrow> sint hr < 0"

definition DXGI_ERROR_WAIT_TIMEOUT :: hresult where
  "DXGI_ERROR_WAIT_TIMEOUT = 0x887A0027"

definition DXGI_ERROR_MORE_DATA :: hresult where
  "DXGI_ERROR_MORE_DATA = 0x887A0003"

record POINT =
  X :: int32
  Y :: int32

record RECT =
  Left :: int32
  Top :: int32
  Right :: int32
  Bottom :: int32

record MOVE_RECT =
  SourcePoint :: POINT
  DestinationRect :: RECT

record MAPPED_RECT =
  Pitch :: int32
  PBits :: "byte list"  \<comment> \<open>the bytes readable at the mapped address\<close>

record BOX =
  bLeft :: uint32
  bTop :: uint32
  bFront :: uint32
  bRight :: uint32
  bBottom :: uint32
  bBack :: uint32

subsection \<open>Slices\<close>

text \<open>
  A Go slice that starts at the beginning of its backing array: the identity of the array
  (\<open>0\<close> for the nil slice), the array's contents (its length is the capacity) and the
  slice's length. \<open>make\<close> (here \<open>make_slice\<close>) takes the next free identity from the heap counter.
\<close>

record 'a slice =
  arr :: nat
  store :: "'a list"
  len :: nat

definition nil_slice :: "'a slice" where
  "nil_slice = \<lparr>arr = 0, store = [], len = 0\<rparr>"

definition cap :: "'a slice \<Rightarrow> nat" where
  "cap s = length (store s)"

definition elems :: "'a slice \<Rightarrow> 'a list" where
  "elems s = take (len s) (store s)"

definition make_slice :: "nat \<Rightarrow> 'a \<Rightarrow> nat \<Rightarrow> 'a slice" where
  "make_slice a z n = \<lparr>arr = a, store = replicate n z, len = n\<rparr>"

subsection \<open>Images (Go's \<open>image\<close> and \<open>image/color\<close>)\<close>

record Rectangle =
  MinX :: int
  MinY :: int
  MaxX :: int
  MaxY :: int

record color =
  colR :: byte
  colG :: byte
  colB :: byte
  colA :: byte

record RGBA =
  Pix :: "byte list"
  Stride :: int
  Rect :: Rectangle

section \<open>The duplicator\<close>

record PointerInfo =
  pos :: POINT
  size_ptr :: POINT
  shapeInBuffer :: "byte slice"
  shapeOutBuffer :: "(nat \<times> RGBA) option"  \<comment> \<open>\<open>*image.RGBA\<close>: address and object, \<open>None\<close> is nil\<close>
  visible :: bool

text \<open>Every call the duplicator makes on the provider, the device and their objects.\<close>

datatype call =
    OutputDuplication_GetDesc
  | OutputDuplication_MapDesktopSurface
  | OutputDuplication_UnMapDesktopSurface
  | OutputDuplication_ReleaseFrame
  | OutputDuplication_AcquireNextFrame uint32
  | OutputDuplication_GetFramePointerShape uint32
  | OutputDuplication_GetFrameMoveRects nat
  | OutputDuplication_GetFrameDirtyRects nat
  | OutputDuplication_Release
  | DxgiOutput_Release
  | Desktop_QueryInterface
  | Desktop_Release
  | Desktop2d_GetDesc
  | Desktop2d_Release
  | Device_CreateTexture2D
  | StagedTex_QueryInterface
  | StagedTex_Release
  | Surface_Map
  | Surface_Unmap
  | Surface_Release
  | DeviceCtx_CopySubresourceRegion2D uint32 uint32 BOX
  | DeviceCtx_CopyResource2D

text \<open>
  The struct \<open>OutputDuplicator\<close>. A COM pointer is \<open>None\<close> when nil. The fields \<open>size\<close>
  of the source are \<open>size_dup\<close> and \<open>size_ptr\<close> here.
\<close>

record OutputDuplicator =
  device :: "nat option"
  deviceCtx :: "nat option"
  outputDuplication :: "nat option"
  dxgiOutput :: "nat option"
  stagedTex :: "nat option"
  surface :: "nat option"
  mappedRect :: MAPPED_RECT
  size_dup :: POINT
  pointerInfo :: PointerInfo
  DrawPointer :: bool
  UpdatePointerInfo :: bool
  dirtyRects :: "RECT slice"
  movedRects :: "MOVE_RECT slice"
  acquiredFrame :: bool
  needsSwizzle :: bool

text \<open>
  The duplicator together with what it acts on: whether the provider holds an acquired
  frame that has not been released, the trace of calls made so far (oldest first), and
  the heap counter (the identity the next allocation gets).
\<close>

record world = OutputDuplicator +
  frameHeld :: bool
  calls :: "call list"
  heapNext :: nat

definition called :: "call \<Rightarrow> world \<Rightarrow> world" where
  "called c w = w\<lparr>calls := calls w @ [c]\<rparr>"

subsection \<open>\<open>ReleaseFrame\<close> and \<open>Release\<close>\<close>

definition ReleaseFrame :: "world \<Rightarrow> world res" where
  "ReleaseFrame w =
     (if acquiredFrame w then
        (case outputDuplication w of
           None \<Rightarrow> Panic
         | Some _ \<Rightarrow>
             Ok ((called OutputDuplication_ReleaseFrame w)
                   \<lparr>acquiredFrame := False, frameHeld := False\<rparr>))
      else Ok w)"

definition Release :: "world \<Rightarrow> world res" where
  "Release w =
     (case ReleaseFrame w of
        Panic \<Rightarrow> Panic
      | Ok w0 \<Rightarrow>
          (let w1 = (if stagedTex w0 \<noteq> None
                     then (called StagedTex_Release w0)\<lparr>stagedTex := None\<rparr> else w0);
               w2 = (if surface w1 \<noteq> None
                     then (called Surface_Release w1)\<lparr>surface := None\<rparr> else w1);
               w3 = (if outputDuplication w2 \<noteq> None
                     then (called OutputDuplication_Release w2)\<lparr>outputDuplication := None\<rparr>
                     else w2);
               w4 = (if dxgiOutput w3 \<noteq> None
                     then (called DxgiOutput_Release w3)\<lparr>dxgiOutput := None\<rparr> else w3)
           in Ok w4))"

text \<open>
  The duplicator as \<open>newIDXGIOutputDuplicationFormat\<close> returns it: the four handles it
  was given or obtained, every other field zero.
\<close>

definition newDuplicator :: "bool \<Rightarrow> world" where
  "newDuplicator swz =
     \<lparr>device = Some 1, deviceCtx = Some 2, outputDuplication = Some 3, dxgiOutput = Some 4,
      stagedTex = None, surface = None,
      mappedRect = \<lparr>Pitch = 0, PBits = []\<rparr>,
      size_dup = \<lparr>X = 0, Y = 0\<rparr>,
      pointerInfo = \<lparr>pos = \<lparr>X = 0, Y = 0\<rparr>, size_ptr = \<lparr>X = 0, Y = 0\<rparr>,
                     shapeInBuffer = nil_slice, shapeOutBuffer = None, visible = False\<rparr>,
      DrawPointer = False, UpdatePointerInfo = False,
      dirtyRects = nil_slice, movedRects = nil_slice,
      acquiredFrame = False, needsSwizzle = swz,
      frameHeld = False, calls = [], heapNext = 1\<rparr>"

section \<open>The provider's answers\<close>

record FRAME_INFO =
  LastMouseUpdateTime :: "64 word"
  AccumulatedFrames :: uint32
  PointerPosition :: POINT
  PointerVisible :: int32
  TotalMetadataBufferSize :: uint32
  PointerShapeBufferSize :: uint32

record POINTER_SHAPE_INFO =
  ShapeType :: uint32
  Width :: uint32
  Height :: uint32
  ShapePitch :: uint32

text \<open>
  The shape types of \<open>dxgi\<close> (declared outside the file; the Windows SDK's values).
\<close>

definition DXGI_OUTDUPL_POINTER_SHAPE_TYPE_MONOCHROME :: uint32 where
  "DXGI_OUTDUPL_POINTER_SHAPE_TYPE_MONOCHROME = 1"

definition DXGI_OUTDUPL_POINTER_SHAPE_TYPE_COLOR :: uint32 where
  "DXGI_OUTDUPL_POINTER_SHAPE_TYPE_COLOR = 2"

definition DXGI_OUTDUPL_POINTER_SHAPE_TYPE_MASKED_COLOR :: uint32 where
  "DXGI_OUTDUPL_POINTER_SHAPE_TYPE_MASKED_COLOR = 4"

text \<open>
  One answer of \<open>GetFrameMoveRects\<close> or \<open>GetFrameDirtyRects\<close>: the status, the count it
  stores in \<open>rectsRequired\<close>, and the rects it writes to the start of the buffer.
\<close>

record 'a answer =
  ans_hr :: hresult
  ans_required :: uint32
  ans_rects :: "'a list"

text \<open>
  What the provider and the device answer during one call of \<open>Snapshot\<close>. The two rect
  queries sit in loops that ask again on \<open>DXGI_ERROR_MORE_DATA\<close>, so their answers are
  lists, one element per call in order; a loop that asks for more answers than the list
  holds has not returned (\<open>None\<close>).
\<close>

record provider =
  GetDesc_hr :: hresult
  DesktopImageInSystemMemory :: int32
  ModeDesc_Width :: uint32
  ModeDesc_Height :: uint32
  MapDesktopSurface_hr :: hresult
  MapDesktopSurface_rect :: MAPPED_RECT
  AcquireNextFrame_hr :: hresult
  AcquireNextFrame_info :: FRAME_INFO
  GetFramePointerShape_hr :: int32
  GetFramePointerShape_bytes :: "byte list"
  GetFramePointerShape_info :: POINTER_SHAPE_INFO
  QueryInterface_hr :: hresult
  Texture_GetDesc_hr :: hresult
  Texture_Width :: uint32
  Texture_Height :: uint32
  CreateTexture2D_hr :: hresult
  Staged_QueryInterface_hr :: hresult
  GetFrameMoveRects_answers :: "MOVE_RECT answer list"
  GetFrameDirtyRects_answers :: "RECT answer list"
  Surface_Map_hr :: hresult
  Surface_Map_rect :: MAPPED_RECT

datatype error =
    ErrNoImageYet
  | ErrGetDesc hresult
  | ErrAcquireNextFrame hresult
  | ErrPointerShape
  | ErrUnsupportedType uint32
  | ErrQueryInterface hresult
  | ErrInitializeStage hresult
  | ErrGetFrameMoveRects hresult
  | ErrGetFrameDirtyRects hresult
  | ErrSurfaceMap hresult

section \<open>Images\<close>

text \<open>
  \<open>image.NewRGBA (image.Rect 0 0 w h)\<close> for \<open>w, h \<ge> 0\<close>: it panics when the buffer
  length \<open>4 * w * h\<close> does not fit an \<open>int\<close>.
\<close>

definition NewRGBA :: "nat \<Rightarrow> nat \<Rightarrow> RGBA res" where
  "NewRGBA w h =
     (if 2 ^ 63 \<le> 4 * int w * int h then Panic
      else Ok \<lparr>Pix = replicate (4 * w * h) 0, Stride = 4 * int w,
               Rect = \<lparr>MinX = 0, MinY = 0, MaxX = int w, MaxY = int h\<rparr>\<rparr>)"

definition In :: "int \<Rightarrow> int \<Rightarrow> Rectangle \<Rightarrow> bool" where
  "In x y r \<longleftrightarrow> MinX r \<le> x \<and> x < MaxX r \<and> MinY r \<le> y \<and> y < MaxY r"

definition PixOffset :: "RGBA \<Rightarrow> int \<Rightarrow> int \<Rightarrow> int" where
  "PixOffset p x y = (y - MinY (Rect p)) * Stride p + (x - MinX (Rect p)) * 4"

text \<open>\<open>(*RGBA).At\<close>: the zero colour outside the rectangle, a panic outside the buffer.\<close>

definition RGBA_At :: "RGBA \<Rightarrow> int \<Rightarrow> int \<Rightarrow> color res" where
  "RGBA_At p x y =
     (if \<not> In x y (Rect p) then Ok \<lparr>colR = 0, colG = 0, colB = 0, colA = 0\<rparr>
      else let i = PixOffset p x y in
        if i < 0 \<or> int (length (Pix p)) < i + 4 then Panic
        else Ok \<lparr>colR = Pix p ! nat i, colG = Pix p ! (nat i + 1),
                 colB = Pix p ! (nat i + 2), colA = Pix p ! (nat i + 3)\<rparr>)"

text \<open>\<open>(*RGBA).Set\<close> with a \<open>color.RGBA\<close>: nothing outside the rectangle.\<close>

definition RGBA_Set :: "RGBA \<Rightarrow> int \<Rightarrow> int \<Rightarrow> color \<Rightarrow> RGBA res" where
  "RGBA_Set p x y c =
     (if \<not> In x y (Rect p) then Ok p
      else let i = PixOffset p x y in
        if i < 0 \<or> int (length (Pix p)) < i + 4 then Panic
        else Ok (p\<lparr>Pix := (Pix p)[nat i := colR c, nat i + 1 := colG c,
                                   nat i + 2 := colB c, nat i + 3 := colA c]\<rparr>))"

section \<open>Loops\<close>

text \<open>\<open>for i := 0; i < n; i++ { body }\<close>, where a panic of the body ends the loop.\<close>

primrec for_upto :: "nat \<Rightarrow> (nat \<Rightarrow> 's \<Rightarrow> 's res) \<Rightarrow> 's \<Rightarrow> 's res" where
  "for_upto 0 body s = Ok s"
| "for_upto (Suc n) body s = (case for_upto n body s of Panic \<Rightarrow> Panic | Ok s' \<Rightarrow> body n s')"

section \<open>\<open>updatePointer\<close>\<close>

subsection \<open>Monochrome shapes\<close>

text \<open>The four bytes a little-endian \<open>uint32\<close> store writes, lowest address first.\<close>

definition bytes32 :: "uint32 \<Rightarrow> byte list" where
  "bytes32 v = [ucast v, ucast (drop_bit 8 v), ucast (drop_bit 16 v), ucast (drop_bit 24 v)]"

text \<open>
  \<open>*(*uint32)(unsafe.Pointer(&out[i])) = v\<close>. The index expression is bounds-checked;
  the store itself is not, and a store that would run past the buffer is a panic here
  (the buffers of this file have a length divisible by 4 and \<open>i\<close> is a multiple of 4).
\<close>

definition store32 :: "byte list \<Rightarrow> nat \<Rightarrow> uint32 \<Rightarrow> byte list res" where
  "store32 out i v =
     (if i + 4 \<le> length out then Ok (take i out @ bytes32 v @ drop (i + 4) out) else Panic)"

text \<open>The \<open>switch\<close> on \<open>andBit\<close> and \<open>xorBit\<close>, with the values it stores.\<close>

definition monoPixel :: "bool \<Rightarrow> bool \<Rightarrow> uint32" where
  "monoPixel andBit xorBit =
     (if \<not> andBit \<and> \<not> xorBit then 0x00000000
      else if \<not> andBit \<and> xorBit then 0xFFFFFFFF
      else if andBit \<and> \<not> xorBit then 0x00000000
      else 0xFF000000)"

text \<open>
  \<open>(m[byteIndex] & bitMask) != 0\<close> with \<open>byteIndex = j*widthBytes + i/8\<close> and
  \<open>bitMask = byte(0x80 >> (i % 8))\<close>.
\<close>

definition maskBit :: "byte list \<Rightarrow> nat \<Rightarrow> nat \<Rightarrow> nat \<Rightarrow> bool" where
  "maskBit m widthBytes i j \<longleftrightarrow>
     (m ! (j * widthBytes + i div 8)) AND drop_bit (i mod 8) 0x80 \<noteq> 0"

definition monoStep ::
  "byte list \<Rightarrow> byte list \<Rightarrow> nat \<Rightarrow> nat \<Rightarrow> nat \<Rightarrow> nat \<Rightarrow> byte list \<Rightarrow> byte list res" where
  "monoStep andMap xorMap width widthBytes j i out =
     (let byteIndex = j * widthBytes + i div 8 in
      if length andMap \<le> byteIndex \<or> length xorMap \<le> byteIndex then Panic
      else store32 out ((j * width + i) * 4)
             (monoPixel (maskBit andMap widthBytes i j) (maskBit xorMap widthBytes i j)))"

definition decodeMonochrome :: "POINTER_SHAPE_INFO \<Rightarrow> byte list \<Rightarrow> byte list \<Rightarrow> byte list res" where
  "decodeMonochrome si inb out =
     (let width = unat (Width si);
          height = unat (Height si) div 2;
          xor_offset = unat (ShapePitch si * word_of_nat height)
      in if length inb < xor_offset then Panic
         else
           let andMap = inb;
               xorMap = drop xor_offset inb;
               widthBytes = (width + 7) div 8
           in for_upto height
                (\<lambda>j. for_upto width (monoStep andMap xorMap width widthBytes j)) out)"

subsection \<open>Colour and masked-colour shapes\<close>

text \<open>
  One row: \<open>copy(out[j*width*4 : (j+1)*width*4], in[j*pitch : j*pitch+width*4])\<close>.
\<close>

definition colorRow :: "nat \<Rightarrow> nat \<Rightarrow> byte list \<Rightarrow> nat \<Rightarrow> byte list \<Rightarrow> byte list res" where
  "colorRow width pitch inb j out =
     (if length out < (j + 1) * width * 4 \<or> length inb < j * pitch + width * 4 then Panic
      else Ok (take (j * width * 4) out @ take (width * 4) (drop (j * pitch) inb)
               @ drop ((j + 1) * width * 4) out))"

text \<open>\<open>out[i], out[i+2] = out[i+2], out[i]\<close> for the pixel that starts at \<open>i = 4 * k\<close>.\<close>

definition swapBR :: "nat \<Rightarrow> byte list \<Rightarrow> byte list res" where
  "swapBR k out =
     (if length out \<le> 4 * k + 2 then Panic
      else Ok (out[4 * k := out ! (4 * k + 2), 4 * k + 2 := out ! (4 * k)]))"

definition decodeColor :: "POINTER_SHAPE_INFO \<Rightarrow> byte list \<Rightarrow> byte list \<Rightarrow> byte list res" where
  "decodeColor si inb out =
     (case for_upto (unat (Height si))
             (colorRow (unat (Width si)) (unat (ShapePitch si)) inb) out of
        Panic \<Rightarrow> Panic
      | Ok out1 \<Rightarrow> for_upto ((length out1 + 3) div 4) swapBR out1)"

subsection \<open>The update\<close>

definition setPointerInfo :: "(PointerInfo \<Rightarrow> PointerInfo) \<Rightarrow> world \<Rightarrow> world" where
  "setPointerInfo f w = w\<lparr>pointerInfo := f (pointerInfo w)\<rparr>"

text \<open>
  \<open>GetFramePointerShape\<close> writes the shape's bytes, at most the size it was given, to the
  start of the buffer.
\<close>

definition provider_write :: "nat \<Rightarrow> 'a list \<Rightarrow> 'a slice \<Rightarrow> 'a slice" where
  "provider_write n bs s = s\<lparr>store := take n bs @ drop (length (take n bs)) (store s)\<rparr>"

text \<open>
  The \<open>switch\<close> on the shape type, on the fresh output image \<open>img\<close> at address \<open>a\<close>. The
  colour and the masked-colour case have the same body in the source.
\<close>

definition decodeShape :: "POINTER_SHAPE_INFO \<Rightarrow> nat \<Rightarrow> RGBA \<Rightarrow> world \<Rightarrow> (error option \<times> world) res" where
  "decodeShape si a img w =
     (let inb = elems (shapeInBuffer (pointerInfo w)) in
      if ShapeType si = DXGI_OUTDUPL_POINTER_SHAPE_TYPE_MONOCHROME then
        (case decodeMonochrome si inb (Pix img) of
           Panic \<Rightarrow> Panic
         | Ok px \<Rightarrow>
             Ok (None, setPointerInfo (\<lambda>p. p\<lparr>size_ptr := \<lparr>X = Width si, Y = Height si div 2\<rparr>,
                                              shapeOutBuffer := Some (a, img\<lparr>Pix := px\<rparr>)\<rparr>) w))
      else if ShapeType si = DXGI_OUTDUPL_POINTER_SHAPE_TYPE_COLOR
              \<or> ShapeType si = DXGI_OUTDUPL_POINTER_SHAPE_TYPE_MASKED_COLOR then
        (case decodeColor si inb (Pix img) of
           Panic \<Rightarrow> Panic
         | Ok px \<Rightarrow>
             Ok (None, setPointerInfo (\<lambda>p. p\<lparr>size_ptr := \<lparr>X = Width si, Y = Height si\<rparr>,
                                              shapeOutBuffer := Some (a, img\<lparr>Pix := px\<rparr>)\<rparr>) w))
      else
        Ok (Some (ErrUnsupportedType (ShapeType si)),
            setPointerInfo (\<lambda>p. p\<lparr>size_ptr := \<lparr>X = 0, Y = 0\<rparr>,
                                     shapeOutBuffer := Some (a, img)\<rparr>) w))"

text \<open>
  The branch \<open>info.PointerShapeBufferSize != 0\<close>, in the order of the source: the raw
  buffer grows when it is shorter than the reported size; the provider writes the shape
  into it; a fresh output image is made; the shape is decoded.
\<close>

definition growShapeInBuffer :: "nat \<Rightarrow> world \<Rightarrow> world" where
  "growShapeInBuffer n w =
     (if len (shapeInBuffer (pointerInfo w)) < n
      then (setPointerInfo (\<lambda>p. p\<lparr>shapeInBuffer := make_slice (heapNext w) 0 n\<rparr>) w)
             \<lparr>heapNext := Suc (heapNext w)\<rparr>
      else w)"

definition fetchShape :: "provider \<Rightarrow> FRAME_INFO \<Rightarrow> world \<Rightarrow> world" where
  "fetchShape pv info w =
     setPointerInfo
       (\<lambda>p. p\<lparr>shapeInBuffer :=
                 provider_write (unat (PointerShapeBufferSize info))
                   (GetFramePointerShape_bytes pv) (shapeInBuffer p)\<rparr>)
       (called (OutputDuplication_GetFramePointerShape (PointerShapeBufferSize info)) w)"

definition newShapeOut :: "POINTER_SHAPE_INFO \<Rightarrow> RGBA res" where
  "newShapeOut si =
     (case NewRGBA (unat (Width si)) (unat (Height si)) of
        Panic \<Rightarrow> Panic
      | Ok img \<Rightarrow>
          (let neededSize = unat (Width si) * unat (Height si div 2) * 4
           in if length (Pix img) < neededSize
              then Ok (img\<lparr>Pix := replicate neededSize 0\<rparr>) else Ok img))"

definition updateShape :: "provider \<Rightarrow> FRAME_INFO \<Rightarrow> world \<Rightarrow> (error option \<times> world) res" where
  "updateShape pv info w =
     (let w1 = growShapeInBuffer (unat (PointerShapeBufferSize info)) w
      in case outputDuplication w1 of
           None \<Rightarrow> Panic
         | Some _ \<Rightarrow>
             (let w2 = fetchShape pv info w1;
                  si = GetFramePointerShape_info pv
              in if GetFramePointerShape_hr pv \<noteq> 0 then Ok (Some ErrPointerShape, w2)
                 else
                   (case newShapeOut si of
                      Panic \<Rightarrow> Panic
                    | Ok img \<Rightarrow>
                        decodeShape si (heapNext w2) img (w2\<lparr>heapNext := Suc (heapNext w2)\<rparr>))))"

definition updatePointer :: "provider \<Rightarrow> FRAME_INFO \<Rightarrow> world \<Rightarrow> (error option \<times> world) res" where
  "updatePointer pv info w =
     (if LastMouseUpdateTime info = 0 then Ok (None, w)
      else
        let w1 = setPointerInfo (\<lambda>p. p\<lparr>visible := (PointerVisible info \<noteq> 0),
                                        pos := PointerPosition info\<rparr>) w
        in if PointerShapeBufferSize info \<noteq> 0 then updateShape pv info w1
           else Ok (None, w1))"

section \<open>\<open>Snapshot\<close>\<close>

text \<open>
  The four results of \<open>Snapshot\<close>: the unmap function, the pointers to the mapped rect and
  to the size (with the values they point to on return), and the error; \<open>None\<close> is nil.
\<close>

datatype unmapFn = Unmap_DesktopSurface | Unmap_Surface

record snap_ret =
  ret_unmap :: "unmapFn option"
  ret_rect :: "MAPPED_RECT option"
  ret_size :: "POINT option"
  ret_err :: "error option"

definition failure :: "error \<Rightarrow> snap_ret" where
  "failure e = \<lparr>ret_unmap = None, ret_rect = None, ret_size = None, ret_err = Some e\<rparr>"

definition success :: "unmapFn \<Rightarrow> world \<Rightarrow> snap_ret" where
  "success u w = \<lparr>ret_unmap = Some u, ret_rect = Some (mappedRect w),
                  ret_size = Some (size_dup w), ret_err = None\<rparr>"

subsection \<open>\<open>initializeStage\<close>\<close>

definition initializeStage :: "provider \<Rightarrow> world \<Rightarrow> (hresult \<times> world) res" where
  "initializeStage pv w =
     (let w1 = called Desktop2d_GetDesc w in
      if Failed (Texture_GetDesc_hr pv) then Ok (Texture_GetDesc_hr pv, w1)
      else
        (case device w1 of
           None \<Rightarrow> Panic
         | Some _ \<Rightarrow>
             (let w2 = called Device_CreateTexture2D w1 in
              if Failed (CreateTexture2D_hr pv) then Ok (CreateTexture2D_hr pv, w2)
              else
                (let w3 = (called StagedTex_QueryInterface
                             (w2\<lparr>stagedTex := Some (heapNext w2), heapNext := Suc (heapNext w2)\<rparr>))
                 in if Failed (Staged_QueryInterface_hr pv)
                    then Ok (Staged_QueryInterface_hr pv, w3)
                    else Ok (0, w3\<lparr>surface := Some (heapNext w3), heapNext := Suc (heapNext w3),
                                     size_dup := \<lparr>X = Texture_Width pv, Y = Texture_Height pv\<rparr>\<rparr>)))))"

subsection \<open>The rect queries\<close>

text \<open>
  The loop around \<open>GetFrameMoveRects\<close> and the one around \<open>GetFrameDirtyRects\<close>, on the
  slice, the heap counter and the trace: the slice is replaced by a fresh one of
  \<open>required\<close> elements when its length is below \<open>required\<close> (\<open>growSlice\<close>, with
  \<open>growHeap\<close> for the heap counter); the provider is asked; on
  \<open>DXGI_ERROR_MORE_DATA\<close> the loop goes round with the count the provider stored, on
  another failure it ends with that status, and on success the slice is cut to the count
  (a panic when the count exceeds the capacity). With no answer left the loop has not
  returned.
\<close>

definition growSlice :: "nat \<Rightarrow> 'a \<Rightarrow> nat \<Rightarrow> 'a slice \<Rightarrow> 'a slice" where
  "growSlice h z n s = (if len s < n then make_slice h z n else s)"

definition growHeap :: "nat \<Rightarrow> nat \<Rightarrow> 'a slice \<Rightarrow> nat" where
  "growHeap h n s = (if len s < n then Suc h else h)"

fun rectsLoop ::
  "(nat \<Rightarrow> call) \<Rightarrow> 'a \<Rightarrow> 'a answer list \<Rightarrow> uint32 \<Rightarrow> 'a slice \<times> nat \<times> call list
     \<Rightarrow> (hresult option \<times> 'a slice \<times> nat \<times> call list) res option" where
  "rectsLoop mk z [] required st = None"
| "rectsLoop mk z (a # as) required (s, h, tr) =
     (let s1 = growSlice h z (unat required) s;
          h1 = growHeap h (unat required) s;
          s2 = provider_write (len s1) (ans_rects a) s1;
          tr2 = tr @ [mk (len s1)]
      in if Failed (ans_hr a) then
           (if ans_hr a = DXGI_ERROR_MORE_DATA
            then rectsLoop mk z as (ans_required a) (s2, h1, tr2)
            else Some (Ok (Some (ans_hr a), s2, h1, tr2)))
         else if cap s2 < unat (ans_required a) then Some Panic
         else Some (Ok (None, s2\<lparr>len := unat (ans_required a)\<rparr>, h1, tr2)))"

definition zeroRECT :: RECT where
  "zeroRECT = \<lparr>Left = 0, Top = 0, Right = 0, Bottom = 0\<rparr>"

definition zeroMOVE_RECT :: MOVE_RECT where
  "zeroMOVE_RECT = \<lparr>SourcePoint = \<lparr>X = 0, Y = 0\<rparr>, DestinationRect = zeroRECT\<rparr>"

definition getMoveRects :: "provider \<Rightarrow> world \<Rightarrow> (hresult option \<times> world) res option" where
  "getMoveRects pv w =
     (case outputDuplication w of
        None \<Rightarrow> Some Panic
      | Some _ \<Rightarrow>
          (case rectsLoop OutputDuplication_GetFrameMoveRects zeroMOVE_RECT
                  (GetFrameMoveRects_answers pv) 1 (movedRects w, heapNext w, calls w) of
             None \<Rightarrow> None
           | Some Panic \<Rightarrow> Some Panic
           | Some (Ok (e, s, h, tr)) \<Rightarrow>
               Some (Ok (e, w\<lparr>movedRects := s, heapNext := h, calls := tr\<rparr>))))"

definition getDirtyRects :: "provider \<Rightarrow> world \<Rightarrow> (hresult option \<times> world) res option" where
  "getDirtyRects pv w =
     (case outputDuplication w of
        None \<Rightarrow> Some Panic
      | Some _ \<Rightarrow>
          (case rectsLoop OutputDuplication_GetFrameDirtyRects zeroRECT
                  (GetFrameDirtyRects_answers pv) 1 (dirtyRects w, heapNext w, calls w) of
             None \<Rightarrow> None
           | Some Panic \<Rightarrow> Some Panic
           | Some (Ok (e, s, h, tr)) \<Rightarrow>
               Some (Ok (e, w\<lparr>dirtyRects := s, heapNext := h, calls := tr\<rparr>))))"

subsection \<open>The copies into the staging texture\<close>

definition copyBox :: "RECT \<Rightarrow> call" where
  "copyBox r = DeviceCtx_CopySubresourceRegion2D (Left r) (Top r)
                 \<lparr>bLeft = Left r, bTop = Top r, bFront = 0,
                  bRight = Right r, bBottom = Bottom r, bBack = 1\<rparr>"

definition copyDirtyRect :: "nat \<Rightarrow> world \<Rightarrow> world res" where
  "copyDirtyRect i w =
     (if len (dirtyRects w) \<le> i then Panic
      else case deviceCtx w of
             None \<Rightarrow> Panic
           | Some _ \<Rightarrow> Ok (called (copyBox (store (dirtyRects w) ! i)) w))"

definition copyResource :: "world \<Rightarrow> world res" where
  "copyResource w =
     (case deviceCtx w of None \<Rightarrow> Panic | Some _ \<Rightarrow> Ok (called DeviceCtx_CopyResource2D w))"

text \<open>
  The statement \<open>if frameInfo.TotalMetadataBufferSize > 0 { ... } else { ... }\<close>. The
  \<open>print\<close> of the last branch writes to the standard error stream and is left out.
\<close>

definition copyFrame :: "provider \<Rightarrow> FRAME_INFO \<Rightarrow> world \<Rightarrow> (error option \<times> world) res option" where
  "copyFrame pv fi w =
     (if TotalMetadataBufferSize fi \<noteq> 0 then
        (case getMoveRects pv w of
           None \<Rightarrow> None
         | Some Panic \<Rightarrow> Some Panic
         | Some (Ok (Some hr, w1)) \<Rightarrow> Some (Ok (Some (ErrGetFrameMoveRects hr), w1))
         | Some (Ok (None, w1)) \<Rightarrow>
             (case getDirtyRects pv w1 of
                None \<Rightarrow> None
              | Some Panic \<Rightarrow> Some Panic
              | Some (Ok (Some hr, w2)) \<Rightarrow> Some (Ok (Some (ErrGetFrameDirtyRects hr), w2))
              | Some (Ok (None, w2)) \<Rightarrow>
                  (if len (movedRects w2) = 0 then
                     (case for_upto (len (dirtyRects w2)) copyDirtyRect w2 of
                        Panic \<Rightarrow> Some Panic
                      | Ok w3 \<Rightarrow> Some (Ok (None, w3)))
                   else
                     (case copyResource w2 of
                        Panic \<Rightarrow> Some Panic
                      | Ok w3 \<Rightarrow> Some (Ok (None, w3))))))
      else
        (case copyResource w of
           Panic \<Rightarrow> Some Panic
         | Ok w1 \<Rightarrow> Some (Ok (None, w1\<lparr>needsSwizzle := True\<rparr>))))"

subsection \<open>The body of \<open>Snapshot\<close>\<close>

text \<open>From \<open>if dup.stagedTex == nil\<close> to the end, with the texture \<open>desktop2d\<close> in hand.\<close>

definition snapshotTexture :: "provider \<Rightarrow> FRAME_INFO \<Rightarrow> world \<Rightarrow> (snap_ret \<times> world) res option" where
  "snapshotTexture pv fi w =
     (case (if stagedTex w = None then initializeStage pv w else Ok (0, w)) of
        Panic \<Rightarrow> Some Panic
      | Ok (hr, w1) \<Rightarrow>
          if Failed hr then Some (Ok (failure (ErrInitializeStage hr), w1))
          else
            (case copyFrame pv fi w1 of
               None \<Rightarrow> None
             | Some Panic \<Rightarrow> Some Panic
             | Some (Ok (Some e, w2)) \<Rightarrow> Some (Ok (failure e, w2))
             | Some (Ok (None, w2)) \<Rightarrow>
                 (case surface w2 of
                    None \<Rightarrow> Some Panic
                  | Some _ \<Rightarrow>
                      (let w3 = (called Surface_Map w2)\<lparr>mappedRect := Surface_Map_rect pv\<rparr>
                       in if Failed (Surface_Map_hr pv)
                          then Some (Ok (failure (ErrSurfaceMap (Surface_Map_hr pv)), w3))
                          else Some (Ok (success Unmap_Surface w3, w3))))))"

text \<open>
  From \<open>if dup.UpdatePointerInfo\<close> on, with the frame acquired; the deferred
  \<open>desktop2d.Release()\<close> runs once \<open>QueryInterface\<close> has succeeded.
\<close>

definition snapshotFrame :: "provider \<Rightarrow> FRAME_INFO \<Rightarrow> world \<Rightarrow> (snap_ret \<times> world) res option" where
  "snapshotFrame pv fi w =
     (case (if UpdatePointerInfo w then updatePointer pv fi w else Ok (None, w)) of
        Panic \<Rightarrow> Some Panic
      | Ok (Some e, w1) \<Rightarrow> Some (Ok (failure e, w1))
      | Ok (None, w1) \<Rightarrow>
          if AccumulatedFrames fi = 0 then Some (Ok (failure ErrNoImageYet, w1))
          else
            (let w2 = called Desktop_QueryInterface w1 in
             if Failed (QueryInterface_hr pv)
             then Some (Ok (failure (ErrQueryInterface (QueryInterface_hr pv)), w2))
             else
               (case snapshotTexture pv fi w2 of
                  None \<Rightarrow> None
                | Some Panic \<Rightarrow> Some Panic
                | Some (Ok (r, w3)) \<Rightarrow> Some (Ok (r, called Desktop2d_Release w3)))))"

text \<open>
  From \<open>dup.ReleaseFrame()\<close> on. A successful \<open>AcquireNextFrame\<close> leaves the provider
  holding a frame. The deferred \<open>desktop.Release()\<close> and \<open>dup.ReleaseFrame()\<close> run when
  the body returns.
\<close>

definition snapshotAcquire :: "provider \<Rightarrow> nat \<Rightarrow> world \<Rightarrow> (snap_ret \<times> world) res option" where
  "snapshotAcquire pv timeoutMs w =
     (case ReleaseFrame w of
        Panic \<Rightarrow> Some Panic
      | Ok w1 \<Rightarrow>
          (let hrF = AcquireNextFrame_hr pv;
               w2 = (called (OutputDuplication_AcquireNextFrame (word_of_nat timeoutMs)) w1)
                      \<lparr>acquiredFrame := True,
                       frameHeld := (if Failed hrF then frameHeld w1 else True)\<rparr>
           in if Failed hrF then
                (if hrF = DXGI_ERROR_WAIT_TIMEOUT then Some (Ok (failure ErrNoImageYet, w2))
                 else Some (Ok (failure (ErrAcquireNextFrame hrF), w2)))
              else
                (case snapshotFrame pv (AcquireNextFrame_info pv) w2 of
                   None \<Rightarrow> None
                 | Some Panic \<Rightarrow> Some Panic
                 | Some (Ok (r, w3)) \<Rightarrow>
                     (case ReleaseFrame (called Desktop_Release w3) of
                        Panic \<Rightarrow> Some Panic
                      | Ok w4 \<Rightarrow> Some (Ok (r, w4))))))"

text \<open>The attempt \<open>if desc.DesktopImageInSystemMemory != 0\<close> up to the call.\<close>

definition mapDesktop :: "provider \<Rightarrow> world \<Rightarrow> world" where
  "mapDesktop pv w =
     (called OutputDuplication_MapDesktopSurface
        (w\<lparr>size_dup := \<lparr>X = ModeDesc_Width pv, Y = ModeDesc_Height pv\<rparr>\<rparr>))
       \<lparr>mappedRect := MapDesktopSurface_rect pv\<rparr>"

definition Snapshot :: "provider \<Rightarrow> nat \<Rightarrow> world \<Rightarrow> (snap_ret \<times> world) res option" where
  "Snapshot pv timeoutMs w =
     (case outputDuplication w of
        None \<Rightarrow> Some Panic
      | Some _ \<Rightarrow>
          (let w0 = called OutputDuplication_GetDesc w in
           if Failed (GetDesc_hr pv) then Some (Ok (failure (ErrGetDesc (GetDesc_hr pv)), w0))
           else if DesktopImageInSystemMemory pv \<noteq> 0 then
             (if Failed (MapDesktopSurface_hr pv)
              then snapshotAcquire pv timeoutMs (mapDesktop pv w0)
              else Some (Ok (success Unmap_DesktopSurface (mapDesktop pv w0), mapDesktop pv w0)))
           else snapshotAcquire pv timeoutMs w0))"

section \<open>\<open>GetImage\<close> and the cursor\<close>

subsection \<open>The pixel transfer\<close>

text \<open>
  One round of the loop of \<open>GetImage\<close>, on \<open>imgStart\<close>, \<open>dataStart\<close> and the destination
  \<open>img.Pix\<close>: \<open>copy(img.Pix[imgStart:], data[dataStart:dataEnd])\<close> with
  \<open>dataEnd = dataStart + contentWidth\<close>. Either slice expression panics when its bounds
  are out of range; \<open>copy\<close> copies as many bytes as the shorter of the two slices has.
\<close>

definition copyRow :: "byte list \<Rightarrow> int \<Rightarrow> int \<Rightarrow> nat \<Rightarrow> int \<times> int \<times> byte list
    \<Rightarrow> (int \<times> int \<times> byte list) res" where
  "copyRow data contentWidth dataWidth i st =
     (case st of (imgStart, dataStart, pix) \<Rightarrow>
        (let dataEnd = dataStart + contentWidth in
         if imgStart < 0 \<or> int (length pix) < imgStart then Panic
         else if dataStart < 0 \<or> dataEnd < dataStart \<or> int (length data) < dataEnd then Panic
         else
           (let src = take (nat dataEnd - nat dataStart) (drop (nat dataStart) data);
                n = min (length pix - nat imgStart) (length src)
            in Ok (imgStart + contentWidth, dataStart + dataWidth,
                   take (nat imgStart) pix @ take n src @ drop (nat imgStart + n) pix))))"

text \<open>
  From \<open>dataSize := int(mappedRect.Pitch) * int(size.Y)\<close> to the end of the loop. The
  bytes of \<open>PBits\<close> are the mapped memory; \<open>unsafe.Slice\<close> panics on a negative length, and
  a length beyond the mapped memory is a panic here.
\<close>

definition copyRows :: "MAPPED_RECT \<Rightarrow> POINT \<Rightarrow> byte list \<Rightarrow> byte list res" where
  "copyRows rect sz pix =
     (let dataSize = sint (Pitch rect) * sint (Y sz) in
      if dataSize < 0 \<or> int (length (PBits rect)) < dataSize then Panic
      else
        (let data = take (nat dataSize) (PBits rect);
             contentWidth = sint (X sz) * 4;
             dataWidth = sint (Pitch rect)
         in case for_upto (nat (sint (Y sz))) (copyRow data contentWidth dataWidth) (0, 0, pix) of
              Panic \<Rightarrow> Panic
            | Ok (imgStart, dataStart, pix') \<Rightarrow> Ok pix'))"

text \<open>
  Modelled from the spec: \<open>swizzle.BGRA\<close>, of the package \<open>outputduplication/swizzle\<close>
  of this repository, whose source is not among the files at hand. In the words of the
  specification it swaps byte 0 and byte 2 of every 4-byte pixel across the whole buffer.
\<close>

fun swizzle_BGRA :: "byte list \<Rightarrow> byte list" where
  "swizzle_BGRA (b0 # b1 # b2 # b3 # rest) = b2 # b1 # b0 # b3 # swizzle_BGRA rest"
| "swizzle_BGRA rest = rest"

text \<open>The row copy followed by \<open>if dup.needsSwizzle { swizzle.BGRA(img.Pix) }\<close>.\<close>

definition transferPixels :: "bool \<Rightarrow> MAPPED_RECT \<Rightarrow> POINT \<Rightarrow> byte list \<Rightarrow> byte list res" where
  "transferPixels swz rect sz pix =
     (case copyRows rect sz pix of
        Panic \<Rightarrow> Panic
      | Ok rows \<Rightarrow> Ok (if swz then swizzle_BGRA rows else rows))"

subsection \<open>The brightness of a pixel\<close>

text \<open>
  \<open>color.RGBA.RGBA()\<close> returns each 8-bit channel \<open>v\<close> as the 16-bit value \<open>v * 0x101\<close>.
\<close>

definition chan16 :: "byte \<Rightarrow> int" where
  "chan16 v = uint v * 257"

text \<open>
  The expression \<open>uint64(0.299*float64(r>>8) + 0.587*float64(g>>8) + 0.114*float64(b>>8))\<close>
  in \<open>float64\<close> arithmetic, each product and each sum rounded to the nearest value of
  53 significant bits, ties to even. All values are kept as integers scaled by \<open>2 ^ 56\<close>:
  \<open>c299\<close>, \<open>c587\<close> and \<open>c114\<close> are the \<open>float64\<close> constants nearest to 0.299, 0.587 and
  0.114 times \<open>2 ^ 56\<close>; \<open>bitlen64 n\<close> is the number of binary digits of \<open>n\<close>;
  \<open>round_even k n\<close> rounds \<open>n\<close> to a multiple of \<open>2 ^ k\<close>; and the conversion to \<open>uint64\<close>
  drops the fraction.
\<close>

function bitlen64 :: "int \<Rightarrow> nat" where
  "bitlen64 n = (if n \<le> 0 then 0 else Suc (bitlen64 (n div 2)))"
  by pat_completeness auto
termination
  by (relation "measure nat") auto

definition round_even :: "nat \<Rightarrow> int \<Rightarrow> int" where
  "round_even k n =
     (if k = 0 then n
      else let q = n div 2 ^ k; r = n mod 2 ^ k; h = 2 ^ (k - 1)
           in if r < h \<or> (r = h \<and> even q) then q * 2 ^ k else (q + 1) * 2 ^ k)"

definition rn :: "int \<Rightarrow> int" where
  "rn n = round_even (bitlen64 n - 53) n"

definition c299 :: int where "c299 = 21545220617340452"
definition c587 :: int where "c587 = 42297807700263696"
definition c114 :: int where "c114 = 8214565720323785"

definition brightness :: "color \<Rightarrow> int" where
  "brightness c =
     rn (rn (rn (c299 * (chan16 (colR c) div 256))
             + rn (c587 * (chan16 (colG c) div 256)))
         + rn (c114 * (chan16 (colB c) div 256))) div 2 ^ 56"

subsection \<open>\<open>analyzeBackgroundBrightness\<close>\<close>

text \<open>\<open>for v := a; v <= b; v++ { body }\<close>.\<close>

definition for_range :: "int \<Rightarrow> int \<Rightarrow> (int \<Rightarrow> 's \<Rightarrow> 's res) \<Rightarrow> 's \<Rightarrow> 's res" where
  "for_range a b body s = for_upto (nat (b - a + 1)) (\<lambda>k. body (a + int k)) s"

text \<open>The test of the \<open>continue\<close>: the point lies in the cursor's own rectangle.\<close>

definition inCursor :: "PointerInfo \<Rightarrow> int \<Rightarrow> int \<Rightarrow> bool" where
  "inCursor p x y \<longleftrightarrow>
     sint (X (pos p)) \<le> x \<and> x < sint (X (pos p)) + sint (X (size_ptr p))
     \<and> sint (Y (pos p)) \<le> y \<and> y < sint (Y (pos p)) + sint (Y (size_ptr p))"

text \<open>The body of the inner loop, on \<open>totalBrightness\<close> and \<open>pixelCount\<close>.\<close>

definition sampleStep :: "RGBA \<Rightarrow> PointerInfo \<Rightarrow> int \<Rightarrow> int \<Rightarrow> int \<times> int \<Rightarrow> (int \<times> int) res" where
  "sampleStep img p y x acc =
     (if inCursor p x y then Ok acc
      else case RGBA_At img x y of
             Panic \<Rightarrow> Panic
           | Ok c \<Rightarrow> Ok (fst acc + brightness c, snd acc + 1))"

definition analyzeBackgroundBrightness :: "RGBA \<Rightarrow> PointerInfo \<Rightarrow> bool res" where
  "analyzeBackgroundBrightness img p =
     (let sampleSize = 20;
          startX = sint (X (pos p)) - sampleSize;
          startY = sint (Y (pos p)) - sampleSize;
          endX = sint (X (pos p)) + sint (X (size_ptr p)) + sampleSize;
          endY = sint (Y (pos p)) + sint (Y (size_ptr p)) + sampleSize;
          startX = (if startX < 0 then 0 else startX);
          startY = (if startY < 0 then 0 else startY);
          endX = (if MaxX (Rect img) \<le> endX then MaxX (Rect img) - 1 else endX);
          endY = (if MaxY (Rect img) \<le> endY then MaxY (Rect img) - 1 else endY)
      in case for_range startY endY (\<lambda>y. for_range startX endX (sampleStep img p y)) (0, 0) of
           Panic \<Rightarrow> Panic
         | Ok (totalBrightness, pixelCount) \<Rightarrow>
             Ok (if pixelCount = 0 then False else 80 < totalBrightness div pixelCount))"

subsection \<open>\<open>drawPointer\<close>\<close>

text \<open>
  The body of the inner loop for the cursor pixel \<open>(i, j)\<close>: \<open>a == 0\<close> continues; the
  opaque black pixel is recoloured; \<open>img.Set\<close> writes the colour. Reading a pixel of a nil
  \<open>shapeOutBuffer\<close> is a panic.
\<close>

definition drawPixel :: "bool \<Rightarrow> PointerInfo \<Rightarrow> nat \<Rightarrow> nat \<Rightarrow> RGBA \<Rightarrow> RGBA res" where
  "drawPixel isLightBackground p j i img =
     (case shapeOutBuffer p of
        None \<Rightarrow> Panic
      | Some (a, shape) \<Rightarrow>
          (case RGBA_At shape (int i) (int j) of
             Panic \<Rightarrow> Panic
           | Ok col \<Rightarrow>
               if chan16 (colA col) = 0 then Ok img
               else
                 RGBA_Set img (sint (X (pos p)) + int i) (sint (Y (pos p)) + int j)
                   (if chan16 (colR col) = 0 \<and> chan16 (colG col) = 0 \<and> chan16 (colB col) = 0
                       \<and> chan16 (colA col) = 0xFFFF
                    then (if isLightBackground
                          then \<lparr>colR = 0, colG = 0, colB = 0, colA = 255\<rparr>
                          else \<lparr>colR = 255, colG = 255, colB = 255, colA = 255\<rparr>)
                    else col)))"

definition drawPointer :: "RGBA \<Rightarrow> PointerInfo \<Rightarrow> RGBA res" where
  "drawPointer img p =
     (case analyzeBackgroundBrightness img p of
        Panic \<Rightarrow> Panic
      | Ok isLightBackground \<Rightarrow>
          for_upto (nat (sint (Y (size_ptr p))))
            (\<lambda>j. for_upto (nat (sint (X (size_ptr p)))) (drawPixel isLightBackground p j)) img)"

definition DrawCursor :: "RGBA \<Rightarrow> world \<Rightarrow> RGBA res" where
  "DrawCursor img w = drawPointer img (pointerInfo w)"

subsection \<open>\<open>GetImage\<close>\<close>

text \<open>The unmap function \<open>Snapshot\<close> returned, called.\<close>

definition unmap :: "unmapFn \<Rightarrow> world \<Rightarrow> world res" where
  "unmap u w =
     (case u of
        Unmap_DesktopSurface \<Rightarrow>
          (case outputDuplication w of
             None \<Rightarrow> Panic
           | Some _ \<Rightarrow> Ok (called OutputDuplication_UnMapDesktopSurface w))
      | Unmap_Surface \<Rightarrow>
          (case surface w of None \<Rightarrow> Panic | Some _ \<Rightarrow> Ok (called Surface_Unmap w)))"

text \<open>
  \<open>GetImage\<close> on the image \<open>img\<close>: the error of \<open>Snapshot\<close>, or the pixel transfer, the
  cursor when \<open>DrawPointer\<close> is set, and the deferred \<open>unmap()\<close>.
\<close>

definition GetImage :: "provider \<Rightarrow> RGBA \<Rightarrow> nat \<Rightarrow> world \<Rightarrow> (error option \<times> RGBA \<times> world) res option" where
  "GetImage pv img timeoutMs w =
     (case Snapshot pv timeoutMs w of
        None \<Rightarrow> None
      | Some Panic \<Rightarrow> Some Panic
      | Some (Ok (r, w1)) \<Rightarrow>
          (case ret_err r of
             Some e \<Rightarrow> Some (Ok (Some e, img, w1))
           | None \<Rightarrow>
               (case (ret_unmap r, ret_rect r, ret_size r) of
                  (Some u, Some rect, Some sz) \<Rightarrow>
                    (case transferPixels (needsSwizzle w1) rect sz (Pix img) of
                       Panic \<Rightarrow> Some Panic
                     | Ok px \<Rightarrow>
                         (case (if DrawPointer w1 then drawPointer (img\<lparr>Pix := px\<rparr>) (pointerInfo w1)
                                else Ok (img\<lparr>Pix := px\<rparr>)) of
                            Panic \<Rightarrow> Some Panic
                          | Ok img' \<Rightarrow>
                              (case unmap u w1 of
                                 Panic \<Rightarrow> Some Panic
                               | Ok w2 \<Rightarrow> Some (Ok (None, img', w2)))))
                | _ \<Rightarrow> Some Panic)))"

section \<open>Notions used in the statements\<close>

text \<open>
  The error \<open>updatePointer\<close> returns, read off its three \<open>return\<close> statements with an
  error and the conditions that lead to them.
\<close>

definition updatePointer_error :: "provider \<Rightarrow> FRAME_INFO \<Rightarrow> error option" where
  "updatePointer_error pv fi =
     (if LastMouseUpdateTime fi = 0 \<or> PointerShapeBufferSize fi = 0 then None
      else if GetFramePointerShape_hr pv \<noteq> 0 then Some ErrPointerShape
      else if ShapeType (GetFramePointerShape_info pv) = DXGI_OUTDUPL_POINTER_SHAPE_TYPE_MONOCHROME
            \<or> ShapeType (GetFramePointerShape_info pv) = DXGI_OUTDUPL_POINTER_SHAPE_TYPE_COLOR
            \<or> ShapeType (GetFramePointerShape_info pv) = DXGI_OUTDUPL_POINTER_SHAPE_TYPE_MASKED_COLOR
      then None
      else Some (ErrUnsupportedType (ShapeType (GetFramePointerShape_info pv))))"

text \<open>The shape types the \<open>switch\<close> of \<open>updatePointer\<close> has a case for.\<close>

definition supported_shape :: "uint32 \<Rightarrow> bool" where
  "supported_shape ty \<longleftrightarrow>
     ty = DXGI_OUTDUPL_POINTER_SHAPE_TYPE_MONOCHROME
     \<or> ty = DXGI_OUTDUPL_POINTER_SHAPE_TYPE_COLOR
     \<or> ty = DXGI_OUTDUPL_POINTER_SHAPE_TYPE_MASKED_COLOR"

text \<open>
  \<open>Snapshot\<close> gets as far as \<open>dup.ReleaseFrame()\<close> and \<open>AcquireNextFrame\<close>: the description
  was obtained and the desktop image was not mapped from system memory.
\<close>

definition reaches_acquire :: "provider \<Rightarrow> bool" where
  "reaches_acquire pv \<longleftrightarrow>
     \<not> Failed (GetDesc_hr pv)
     \<and> (DesktopImageInSystemMemory pv = 0 \<or> Failed (MapDesktopSurface_hr pv))"

text \<open>
  The frame-capture state of a duplicator: every field but the pointer state, the two frame
  flags, the trace and the heap counter, which are set to fixed values.
\<close>

definition capture_state :: "world \<Rightarrow> world" where
  "capture_state w = w\<lparr>pointerInfo := pointerInfo (newDuplicator False), calls := [], heapNext := 0,
                        acquiredFrame := False, frameHeld := False\<rparr>"

text \<open>
  The copies into the staging texture among the calls of a trace, and the copies the three
  strategies make for a frame, read off the final rect buffers.
\<close>

fun isCopy :: "call \<Rightarrow> bool" where
  "isCopy (DeviceCtx_CopySubresourceRegion2D x y b) = True"
| "isCopy DeviceCtx_CopyResource2D = True"
| "isCopy _ = False"

definition copies :: "world \<Rightarrow> call list" where
  "copies w = filter isCopy (calls w)"

definition strategy :: "FRAME_INFO \<Rightarrow> world \<Rightarrow> call list" where
  "strategy fi w =
     (if TotalMetadataBufferSize fi = 0 then [DeviceCtx_CopyResource2D]
      else if len (movedRects w) = 0 then map copyBox (elems (dirtyRects w))
      else [DeviceCtx_CopyResource2D])"


definition copy_view :: "world \<Rightarrow> call list \<times> bool \<times> MOVE_RECT slice \<times> RECT slice" where
  "copy_view w = (copies w, needsSwizzle w, movedRects w, dirtyRects w)"


text \<open>
  Some round of a rect query loop, started with the count \<open>req\<close> on a slice of length
  \<open>l\<close>, asks for more than \<open>l\<close> elements: the first round, or a later one reached through
  \<open>DXGI_ERROR_MORE_DATA\<close> answers.
\<close>

fun grows :: "'a answer list \<Rightarrow> uint32 \<Rightarrow> nat \<Rightarrow> bool" where
  "grows [] req l = False"
| "grows (a # as) req l =
     (l < unat req \<or> (Failed (ans_hr a) \<and> ans_hr a = DXGI_ERROR_MORE_DATA \<and> grows as (ans_required a) l))"










section \<open>The mapping table of the specification\<close>

text \<open>
  The pixel the specification's table gives for an AND bit and an XOR bit, as a
  \<open>color.RGBA\<close>: transparent, opaque white, transparent, and the opaque black marker.
\<close>

definition spec_monochrome_table :: "bool \<Rightarrow> bool \<Rightarrow> color" where
  "spec_monochrome_table andBit xorBit =
     (case (andBit, xorBit) of
        (False, False) \<Rightarrow> \<lparr>colR = 0, colG = 0, colB = 0, colA = 0\<rparr>
      | (False, True) \<Rightarrow> \<lparr>colR = 255, colG = 255, colB = 255, colA = 255\<rparr>
      | (True, False) \<Rightarrow> \<lparr>colR = 0, colG = 0, colB = 0, colA = 0\<rparr>
      | (True, True) \<Rightarrow> \<lparr>colR = 0, colG = 0, colB = 0, colA = 255\<rparr>)"

text \<open>
  The bit of a 1-bit-per-pixel bitmap at the coordinate \<open>(i, j)\<close>, in the words of the
  specification: each row is padded to the pitch, so row \<open>j\<close> starts at byte
  \<open>j * pitch\<close>, and the pixels of a byte run from its highest bit down. The raw buffer of
  a monochrome shape holds the AND bitmap and then, \<open>pitch * height\<close> bytes on, the XOR
  bitmap.
\<close>

definition spec_plane_bit :: "byte list \<Rightarrow> nat \<Rightarrow> nat \<Rightarrow> nat \<Rightarrow> bool" where
  "spec_plane_bit plane pitch i j \<longleftrightarrow> bit (plane ! (j * pitch + i div 8)) (7 - i mod 8)"



section \<open>Invariants of the loops\<close>

text \<open>A slice whose length does not exceed its capacity.\<close>

definition wf_slice :: "'a slice \<Rightarrow> bool" where
  "wf_slice s \<longleftrightarrow> len s \<le> length (store s)"

text \<open>
  The output buffer after the first \<open>n\<close> pixels of row \<open>j\<close>, and after the first \<open>m\<close>
  rows, of the monochrome decoding: the bytes of the pixels done, every other byte as before.
\<close>

definition row_done :: "byte list \<Rightarrow> byte list \<Rightarrow> nat \<Rightarrow> nat \<Rightarrow> nat \<Rightarrow> nat \<Rightarrow> byte list \<Rightarrow> byte list \<Rightarrow> bool" where
  "row_done a x wb width j n out out' \<longleftrightarrow> length out' = length out \<and>
    (\<forall>p<length out. out' ! p =
       (if 4 * (j * width) \<le> p \<and> p < 4 * (j * width + n)
        then bytes32 (monoPixel (maskBit a wb (p div 4 - j * width) j)
                                (maskBit x wb (p div 4 - j * width) j)) ! (p mod 4)
        else out ! p))"

definition rows_done :: "byte list \<Rightarrow> byte list \<Rightarrow> nat \<Rightarrow> nat \<Rightarrow> nat \<Rightarrow> byte list \<Rightarrow> byte list \<Rightarrow> bool" where
  "rows_done a x wb width m out out' \<longleftrightarrow> length out' = length out \<and>
    (\<forall>p<length out. out' ! p =
       (if p < 4 * width * m
        then bytes32 (monoPixel (maskBit a wb (p div 4 mod width) (p div 4 div width))
                                (maskBit x wb (p div 4 mod width) (p div 4 div width))) ! (p mod 4)
        else out ! p))"

text \<open>
  The destination after the first \<open>n\<close> rows of the pixel transfer: row \<open>r\<close> of the
  destination, \<open>cw\<close> bytes from \<open>r * cw\<close>, holds the bytes of the source from \<open>r * pitch\<close>;
  every byte from \<open>n * cw\<close> on is as before.
\<close>

definition rows_copied :: "byte list \<Rightarrow> nat \<Rightarrow> nat \<Rightarrow> nat \<Rightarrow> byte list \<Rightarrow> byte list \<Rightarrow> bool" where
  "rows_copied data cw pitch n pix px \<longleftrightarrow>
     length px = length pix
     \<and> (\<forall>row<n. \<forall>k<cw. px ! (row * cw + k) = data ! (row * pitch + k))
     \<and> (\<forall>p<length pix. n * cw \<le> p \<longrightarrow> px ! p = pix ! p)"




section \<open>Example inputs\<close>

text \<open>
  A provider whose every call succeeds and reports nothing, and a frame with a 2 by 2
  monochrome shape (reported height 4, pitch 1): AND rows \<open>01\<close>, \<open>01\<close>, XOR rows
  \<open>10\<close>, \<open>01\<close>.
\<close>

definition quietProvider :: provider where
  "quietProvider =
     \<lparr>GetDesc_hr = 0, DesktopImageInSystemMemory = 0, ModeDesc_Width = 0, ModeDesc_Height = 0,
      MapDesktopSurface_hr = 0, MapDesktopSurface_rect = \<lparr>Pitch = 0, PBits = []\<rparr>,
      AcquireNextFrame_hr = 0,
      AcquireNextFrame_info = \<lparr>LastMouseUpdateTime = 0, AccumulatedFrames = 1,
        PointerPosition = \<lparr>X = 0, Y = 0\<rparr>, PointerVisible = 0,
        TotalMetadataBufferSize = 0, PointerShapeBufferSize = 0\<rparr>,
      GetFramePointerShape_hr = 0, GetFramePointerShape_bytes = [],
      GetFramePointerShape_info = \<lparr>ShapeType = 0, Width = 0, Height = 0, ShapePitch = 0\<rparr>,
      QueryInterface_hr = 0, Texture_GetDesc_hr = 0, Texture_Width = 0, Texture_Height = 0,
      CreateTexture2D_hr = 0, Staged_QueryInterface_hr = 0,
      GetFrameMoveRects_answers = [], GetFrameDirtyRects_answers = [],
      Surface_Map_hr = 0, Surface_Map_rect = \<lparr>Pitch = 0, PBits = []\<rparr>\<rparr>"

definition monoProvider :: provider where
  "monoProvider = quietProvider
     \<lparr>GetFramePointerShape_bytes := [0x40, 0x40, 0x80, 0x40],
      GetFramePointerShape_info := \<lparr>ShapeType = 1, Width = 2, Height = 4, ShapePitch = 1\<rparr>\<rparr>"

definition shapeFrame :: FRAME_INFO where
  "shapeFrame = \<lparr>LastMouseUpdateTime = 1, AccumulatedFrames = 1,
        PointerPosition = \<lparr>X = 0, Y = 0\<rparr>, PointerVisible = 1,
        TotalMetadataBufferSize = 0, PointerShapeBufferSize = 4\<rparr>"

text \<open>
  A 2 by 2 monochrome shape (reported height 4) whose rows are padded to a pitch of 4
  bytes: the AND bitmap in the bytes 0 to 7, rows \<open>00\<close>, \<open>10\<close>; the XOR bitmap in the
  bytes 8 to 15, rows \<open>00\<close>, \<open>10\<close>.
\<close>

definition paddedMonoProvider :: provider where
  "paddedMonoProvider = quietProvider
     \<lparr>GetFramePointerShape_bytes :=
        [0x00, 0, 0, 0, 0x80, 0, 0, 0, 0x00, 0, 0, 0, 0x80, 0, 0, 0],
      GetFramePointerShape_info := \<lparr>ShapeType = 1, Width = 2, Height = 4, ShapePitch = 4\<rparr>\<rparr>"

definition paddedShapeFrame :: FRAME_INFO where
  "paddedShapeFrame = shapeFrame\<lparr>PointerShapeBufferSize := 16\<rparr>"





text \<open>
  Providers for single calls of \<open>Snapshot\<close>: one whose \<open>AcquireNextFrame\<close> times out; one
  whose frame has no accumulated update and whose \<open>GetFramePointerShape\<close> fails with
  \<open>E_FAIL\<close>; one whose shape has the type 3; that one with the desktop image reported
  in system memory and a \<open>MapDesktopSurface\<close> that fails with \<open>E_FAIL\<close>; one whose desktop
  image is in system memory and is mapped.
\<close>

definition timeoutProvider :: provider where
  "timeoutProvider = quietProvider\<lparr>AcquireNextFrame_hr := DXGI_ERROR_WAIT_TIMEOUT\<rparr>"

definition pointerFailProvider :: provider where
  "pointerFailProvider = quietProvider
     \<lparr>AcquireNextFrame_info := shapeFrame\<lparr>AccumulatedFrames := 0\<rparr>,
      GetFramePointerShape_hr := 0x80004005\<rparr>"

definition unsupportedProvider :: provider where
  "unsupportedProvider = quietProvider
     \<lparr>AcquireNextFrame_info := shapeFrame,
      GetFramePointerShape_bytes := [0x40, 0x40, 0x80, 0x40],
      GetFramePointerShape_info := \<lparr>ShapeType = 3, Width = 2, Height = 4, ShapePitch = 1\<rparr>\<rparr>"

definition unmappableProvider :: provider where
  "unmappableProvider = unsupportedProvider
     \<lparr>DesktopImageInSystemMemory := 1, ModeDesc_Width := 2, ModeDesc_Height := 1,
      MapDesktopSurface_hr := 0x80004005\<rparr>"

definition desktopProvider :: provider where
  "desktopProvider = quietProvider
     \<lparr>DesktopImageInSystemMemory := 1, ModeDesc_Width := 2, ModeDesc_Height := 1,
      MapDesktopSurface_rect := \<lparr>Pitch = 8, PBits = [1, 2, 3, 4, 5, 6, 7, 8]\<rparr>,
      AcquireNextFrame_info := shapeFrame\<rparr>"

text \<open>
  Frames with metadata: one with no moved rect and two dirty rects, the second answer
  after \<open>DXGI_ERROR_MORE_DATA\<close>; one with two moved rects; one with no moved rect; and a
  frame without metadata and without an accumulated update. A rect slice of capacity 2
  cut to length 0.
\<close>

definition metadataFrame :: FRAME_INFO where
  "metadataFrame = \<lparr>LastMouseUpdateTime = 0, AccumulatedFrames = 1,
        PointerPosition = \<lparr>X = 0, Y = 0\<rparr>, PointerVisible = 0,
        TotalMetadataBufferSize = 32, PointerShapeBufferSize = 0\<rparr>"

definition rectA :: RECT where
  "rectA = \<lparr>Left = 0, Top = 0, Right = 8, Bottom = 4\<rparr>"

definition rectB :: RECT where
  "rectB = \<lparr>Left = 16, Top = 2, Right = 20, Bottom = 6\<rparr>"


definition moveA :: MOVE_RECT where
  "moveA = \<lparr>SourcePoint = \<lparr>X = 0, Y = 0\<rparr>, DestinationRect = rectA\<rparr>"

definition twoMovesProvider :: provider where
  "twoMovesProvider = quietProvider
     \<lparr>AcquireNextFrame_info := metadataFrame,
      Texture_Width := 32, Texture_Height := 8,
      GetFrameMoveRects_answers :=
        [\<lparr>ans_hr = DXGI_ERROR_MORE_DATA, ans_required = 2, ans_rects = []\<rparr>,
         \<lparr>ans_hr = 0, ans_required = 2, ans_rects = [moveA, moveA]\<rparr>],
      GetFrameDirtyRects_answers := [\<lparr>ans_hr = 0, ans_required = 1, ans_rects = [rectA]\<rparr>]\<rparr>"

definition noMovesProvider :: provider where
  "noMovesProvider = quietProvider
     \<lparr>AcquireNextFrame_info := metadataFrame,
      Texture_Width := 32, Texture_Height := 8,
      GetFrameMoveRects_answers := [\<lparr>ans_hr = 0, ans_required = 0, ans_rects = []\<rparr>],
      GetFrameDirtyRects_answers := [\<lparr>ans_hr = 0, ans_required = 1, ans_rects = [rectA]\<rparr>]\<rparr>"

definition emptiedSlice :: "RECT slice" where
  "emptiedSlice = \<lparr>arr = 5, store = [rectA, rectB], len = 0\<rparr>"


text \<open>
  Mapped memory of two rows of two pixels with four bytes of padding after each row, and
  mapped memory of two rows of one pixel with four bytes of padding.
\<close>

definition paddedRect :: MAPPED_RECT where
  "paddedRect = \<lparr>Pitch = 12,
     PBits = [1, 2, 3, 4, 5, 6, 7, 8, 0xEE, 0xEE, 0xEE, 0xEE,
              9, 10, 11, 12, 13, 14, 15, 16, 0xEE, 0xEE, 0xEE, 0xEE]\<rparr>"

definition narrowRect :: MAPPED_RECT where
  "narrowRect = \<lparr>Pitch = 8,
     PBits = [1, 2, 3, 4, 0xEE, 0xEE, 0xEE, 0xEE, 9, 10, 11, 12, 0xEE, 0xEE, 0xEE, 0xEE]\<rparr>"




section \<open>Releasing twice\<close>

lemma ReleaseFrame_idem: "ReleaseFrame w = Ok w1 \<Longrightarrow> ReleaseFrame w1 = Ok w1"
  by (auto simp: ReleaseFrame_def called_def split: if_splits option.splits)

lemma ReleaseFrame_clears: "ReleaseFrame w = Ok w1 \<Longrightarrow> \<not> acquiredFrame w1"
  by (auto simp: ReleaseFrame_def called_def split: if_splits option.splits)

lemma Release_idem: "Release w = Ok w2 \<Longrightarrow> Release w2 = Ok w2"
proof -
  assume r: "Release w = Ok w2"
  then obtain w0 where w0: "ReleaseFrame w = Ok w0"
    by (auto simp: Release_def split: res.splits)
  have nf: "\<not> acquiredFrame w0" using w0 by (rule ReleaseFrame_clears)
  from r w0 have props: "\<not> acquiredFrame w2 \<and> stagedTex w2 = None \<and> surface w2 = None
      \<and> outputDuplication w2 = None \<and> dxgiOutput w2 = None"
    using nf by (auto simp: Release_def Let_def called_def split: if_splits)
  then show "Release w2 = Ok w2"
    by (simp add: Release_def ReleaseFrame_def)
qed

lemma ReleaseFrame_returns:
  "\<not> acquiredFrame w \<or> outputDuplication w \<noteq> None \<Longrightarrow> \<exists>w1. ReleaseFrame w = Ok w1"
  by (auto simp: ReleaseFrame_def split: option.splits)

lemma Release_returns:
  "\<not> acquiredFrame w \<or> outputDuplication w \<noteq> None \<Longrightarrow> \<exists>w2. Release w = Ok w2"
  by (auto simp: Release_def ReleaseFrame_def Let_def split: option.splits)

text \<open>
  C9. \<open>ReleaseFrame\<close> and \<open>Release\<close> return on a duplicator whose provider handle is
  there when a frame is flagged as acquired, and calling either a second time right after
  returns the very same state: no field changes and the trace of calls gets no second
  release.
\<close>

theorem release_twice_is_noop:
  assumes "acquiredFrame w \<longrightarrow> outputDuplication w \<noteq> None"
  shows "\<exists>w1 w2. ReleaseFrame w = Ok w1 \<and> ReleaseFrame w1 = Ok w1
           \<and> calls w1 = calls w @ (if acquiredFrame w then [OutputDuplication_ReleaseFrame] else [])
           \<and> Release w = Ok w2 \<and> Release w2 = Ok w2"
proof -
  from assms have h: "\<not> acquiredFrame w \<or> outputDuplication w \<noteq> None" by blast
  from ReleaseFrame_returns [OF h] obtain w1 where w1: "ReleaseFrame w = Ok w1" ..
  from Release_returns [OF h] obtain w2 where w2: "Release w = Ok w2" ..
  have c: "calls w1 = calls w @ (if acquiredFrame w then [OutputDuplication_ReleaseFrame] else [])"
    using w1 by (auto simp: ReleaseFrame_def called_def split: if_splits option.splits)
  show ?thesis
    using w1 w2 c ReleaseFrame_idem [OF w1] Release_idem [OF w2] by blast
qed

theorem release_twice_is_noop_witness:
  "\<exists>w1 w2. ReleaseFrame ((newDuplicator False)\<lparr>acquiredFrame := True, frameHeld := True\<rparr>) = Ok w1
     \<and> ReleaseFrame w1 = Ok w1
     \<and> calls w1 = [OutputDuplication_ReleaseFrame]
     \<and> Release ((newDuplicator False)\<lparr>acquiredFrame := True, frameHeld := True\<rparr>) = Ok w2
     \<and> Release w2 = Ok w2"
  using release_twice_is_noop [of "(newDuplicator False)\<lparr>acquiredFrame := True, frameHeld := True\<rparr>"]
  by (simp add: newDuplicator_def)


section \<open>Monochrome pointer shapes\<close>




lemma length_bytes32 [simp]: "length (bytes32 v) = 4" by (simp add: bytes32_def)

lemma store32_nth:
  "store32 out i v = Ok out' \<Longrightarrow> length out' = length out \<and>
    (\<forall>p < length out. out' ! p = (if i \<le> p \<and> p < i + 4 then bytes32 v ! (p - i) else out ! p))"
  by (auto simp: store32_def nth_append split: if_splits)


lemma for_upto_Suc_Ok:
  "for_upto n body s = Ok s1 \<Longrightarrow> for_upto (Suc n) body s = body n s1"
  by simp

lemma div4_block:
  "4 * q \<le> p \<Longrightarrow> p < 4 * q + 4 \<Longrightarrow> p div 4 = q \<and> p mod 4 = p - 4 * (q::nat)"
  by presburger

lemma mono_row_aux:
  assumes "\<forall>i<n. j * wb + i div 8 < length a \<and> j * wb + i div 8 < length x"
    and "(j * width + n) * 4 \<le> length out"
  shows "\<exists>out'. for_upto n (monoStep a x width wb j) out = Ok out' \<and> length out' = length out \<and>
    (\<forall>p<length out. out' ! p =
       (if 4 * (j * width) \<le> p \<and> p < 4 * (j * width + n)
        then bytes32 (monoPixel (maskBit a wb (p div 4 - j * width) j)
                                (maskBit x wb (p div 4 - j * width) j)) ! (p mod 4)
        else out ! p))"
  using assms
proof (induction n)
  case 0
  then show ?case by auto
next
  case (Suc n)
  then obtain s where s: "for_upto n (monoStep a x width wb j) out = Ok s"
    and ls: "length s = length out"
    and ps: "\<forall>p<length out. s ! p =
       (if 4 * (j * width) \<le> p \<and> p < 4 * (j * width + n)
        then bytes32 (monoPixel (maskBit a wb (p div 4 - j * width) j)
                                (maskBit x wb (p div 4 - j * width) j)) ! (p mod 4)
        else out ! p)"
    by force
  let ?v = "monoPixel (maskBit a wb n j) (maskBit x wb n j)"
  define k where "k = (j * width + n) * 4"
  have rd: "j * wb + n div 8 < length a" "j * wb + n div 8 < length x"
    using Suc.prems(1) by auto
  have fit: "k + 4 \<le> length s" using Suc.prems(2) ls by (simp add: k_def)
  define out' where "out' = take k s @ bytes32 ?v @ drop (k + 4) s"
  have st2: "store32 s k ?v = Ok out'"
    using fit by (simp add: store32_def out'_def)
  have st: "monoStep a x width wb j n s = Ok out'"
    using rd st2 by (simp add: monoStep_def k_def)
  have run: "for_upto (Suc n) (monoStep a x width wb j) out = Ok out'"
    using s st by simp
  have len: "length out' = length out"
    using store32_nth [OF st2] ls by simp
  have nth: "out' ! p = (if k \<le> p \<and> p < k + 4 then bytes32 ?v ! (p - k) else s ! p)"
    if "p < length out" for p
    using store32_nth [OF st2] ls that by simp
  have "\<forall>p<length out. out' ! p =
       (if 4 * (j * width) \<le> p \<and> p < 4 * (j * width + Suc n)
        then bytes32 (monoPixel (maskBit a wb (p div 4 - j * width) j)
                                (maskBit x wb (p div 4 - j * width) j)) ! (p mod 4)
        else out ! p)"
  proof (intro allI impI)
    fix p assume p: "p < length out"
    show "out' ! p =
       (if 4 * (j * width) \<le> p \<and> p < 4 * (j * width + Suc n)
        then bytes32 (monoPixel (maskBit a wb (p div 4 - j * width) j)
                                (maskBit x wb (p div 4 - j * width) j)) ! (p mod 4)
        else out ! p)"
    proof (cases "k \<le> p \<and> p < k + 4")
      case True
      then have "4 * (j * width + n) \<le> p \<and> p < 4 * (j * width + n) + 4"
        by (simp add: k_def)
      then have "p div 4 = j * width + n \<and> p mod 4 = p - 4 * (j * width + n)
          \<and> 4 * (j * width) \<le> p \<and> p < 4 * (j * width + Suc n)"
        using div4_block [of "j * width + n" p] by simp
      then have d: "p div 4 - j * width = n" and m: "p mod 4 = p - k"
        and r: "4 * (j * width) \<le> p \<and> p < 4 * (j * width + Suc n)"
        by (simp_all add: k_def)
      from True nth [OF p] have "out' ! p = bytes32 ?v ! (p - k)" by simp
      with d m r show ?thesis by simp
    next
      case False
      then have e: "(4 * (j * width) \<le> p \<and> p < 4 * (j * width + Suc n))
          = (4 * (j * width) \<le> p \<and> p < 4 * (j * width + n))"
        unfolding k_def by auto
      from False nth [OF p] have "out' ! p = s ! p" by auto
      with ps p e show ?thesis by simp
    qed
  qed
  with run len show ?case by simp
qed


lemma mono_row:
  assumes "\<forall>i<n. j * wb + i div 8 < length a \<and> j * wb + i div 8 < length x"
    and "(j * width + n) * 4 \<le> length out"
  shows "\<exists>out'. for_upto n (monoStep a x width wb j) out = Ok out' \<and> row_done a x wb width j n out out'"
  unfolding row_done_def using mono_row_aux [OF assms] .

lemma divmod_block:
  "m * w \<le> q \<Longrightarrow> q < m * w + w \<Longrightarrow> q div w = m \<and> q mod w = q - m * (w::nat)"
proof -
  assume a: "m * w \<le> q" and b: "q < m * w + w"
  have d: "q div w = m"
    using a b by (intro div_nat_eqI) (simp_all add: mult.commute)
  have "q mod w = q - (q div w) * w"
    by (simp add: minus_div_mult_eq_mod)
  with d show ?thesis by simp
qed

lemma div4_range:
  "4 * lo \<le> p \<Longrightarrow> p < 4 * hi \<Longrightarrow> lo \<le> p div 4 \<and> p div 4 < (hi::nat)"
  by (simp add: less_eq_div_iff_mult_less_eq div_less_iff_less_mult mult.commute)

lemma div8_lt: "i < width \<Longrightarrow> i div 8 < (width + 7) div (8::nat)"
proof -
  assume a: "i < width"
  have "width \<le> 8 * ((width + 7) div 8)"
    using div_mult_mod_eq [of "width + 7" 8] pos_mod_bound [of 8 "int width + 7"]
    by (simp add: minus_mod_eq_mult_div [symmetric])
  with a have "i < 8 * ((width + 7) div 8)" by simp
  then show ?thesis by (simp add: div_less_iff_less_mult mult.commute)
qed


lemma rows_done_step:
  assumes ps: "rows_done a x wb width m out s"
    and rw: "row_done a x wb width m width s out'"
  shows "rows_done a x wb width (Suc m) out out'"
  unfolding rows_done_def
proof (intro conjI allI impI)
  from rw have lo: "length out' = length s"
    and po: "\<forall>p<length s. out' ! p =
       (if 4 * (m * width) \<le> p \<and> p < 4 * (m * width + width)
        then bytes32 (monoPixel (maskBit a wb (p div 4 - m * width) m)
                                (maskBit x wb (p div 4 - m * width) m)) ! (p mod 4)
        else s ! p)"
    by (simp_all add: row_done_def)
  from ps have ls: "length s = length out" by (simp add: rows_done_def)
  show "length out' = length out" using lo ls by simp
  fix p assume p: "p < length out"
  from ps p have sp: "s ! p =
       (if p < 4 * width * m
        then bytes32 (monoPixel (maskBit a wb (p div 4 mod width) (p div 4 div width))
                                (maskBit x wb (p div 4 mod width) (p div 4 div width))) ! (p mod 4)
        else out ! p)"
    by (simp add: rows_done_def)
  from po p ls have op: "out' ! p =
       (if 4 * (m * width) \<le> p \<and> p < 4 * (m * width + width)
        then bytes32 (monoPixel (maskBit a wb (p div 4 - m * width) m)
                                (maskBit x wb (p div 4 - m * width) m)) ! (p mod 4)
        else s ! p)"
    by simp
  have sm: "4 * width * Suc m = 4 * (m * width + width)" by simp
  have mm: "4 * width * m = 4 * (m * width)" by simp
  show "out' ! p =
       (if p < 4 * width * Suc m
        then bytes32 (monoPixel (maskBit a wb (p div 4 mod width) (p div 4 div width))
                                (maskBit x wb (p div 4 mod width) (p div 4 div width))) ! (p mod 4)
        else out ! p)"
  proof (cases "4 * (m * width) \<le> p \<and> p < 4 * (m * width + width)")
    case True
    then have "m * width \<le> p div 4" and "p div 4 < m * width + width"
      using div4_range [of "m * width" p "m * width + width"] by simp_all
    from divmod_block [OF this]
    have d: "p div 4 div width = m" "p div 4 mod width = p div 4 - m * width" by simp_all
    from True have r: "p < 4 * width * Suc m" unfolding sm by simp
    from True op have "out' ! p = bytes32 (monoPixel (maskBit a wb (p div 4 - m * width) m)
                                (maskBit x wb (p div 4 - m * width) m)) ! (p mod 4)"
      by simp
    with d r show ?thesis by simp
  next
    case False
    then have e: "(p < 4 * width * Suc m) = (p < 4 * width * m)"
      unfolding sm mm by auto
    from False op have "out' ! p = s ! p" by auto
    with sp e show ?thesis by simp
  qed
qed

lemma mono_rows:
  assumes "m * wb \<le> length a" and "m * wb \<le> length x" and "(width + 7) div 8 \<le> wb"
    and "4 * width * m \<le> length out"
  shows "\<exists>out'. for_upto m (\<lambda>j. for_upto width (monoStep a x width wb j)) out = Ok out'
    \<and> rows_done a x wb width m out out'"
  using assms
proof (induction m)
  case 0
  then show ?case by (simp add: rows_done_def)
next
  case (Suc m)
  have "m * wb \<le> Suc m * wb" by simp
  then have pre1: "m * wb \<le> length a" and pre2: "m * wb \<le> length x"
    using Suc.prems(1,2) by linarith+
  have "4 * width * m \<le> 4 * width * Suc m" by simp
  then have pre3: "4 * width * m \<le> length out" using Suc.prems(4) by linarith
  from Suc.IH [OF pre1 pre2 Suc.prems(3) pre3]
  obtain s where s: "for_upto m (\<lambda>j. for_upto width (monoStep a x width wb j)) out = Ok s"
    and ps: "rows_done a x wb width m out s"
    by blast
  from ps have ls: "length s = length out" by (simp add: rows_done_def)
  have rd: "\<forall>i<width. m * wb + i div 8 < length a \<and> m * wb + i div 8 < length x"
  proof (intro allI impI)
    fix i assume "i < width"
    then have "i div 8 < wb" using div8_lt [of i width] Suc.prems(3) by simp
    then have "m * wb + i div 8 < Suc m * wb" by simp
    with Suc.prems(1,2) show "m * wb + i div 8 < length a \<and> m * wb + i div 8 < length x"
      by simp
  qed
  have "(m * width + width) * 4 = 4 * width * Suc m" by (simp add: algebra_simps)
  also have "\<dots> \<le> length out" by (fact Suc.prems(4))
  also have "\<dots> = length s" using ls by simp
  finally have fit: "(m * width + width) * 4 \<le> length s" .
  from mono_row [OF rd fit]
  obtain out' where row: "for_upto width (monoStep a x width wb m) s = Ok out'"
    and rw: "row_done a x wb width m width s out'"
    by blast
  have run: "for_upto (Suc m) (\<lambda>j. for_upto width (monoStep a x width wb j)) out = Ok out'"
    using s row by simp
  from rows_done_step [OF ps rw] run show ?case by simp
qed



lemma monoPixel_table:
  "bytes32 (monoPixel a x) = [colR (spec_monochrome_table a x), colG (spec_monochrome_table a x),
     colB (spec_monochrome_table a x), colA (spec_monochrome_table a x)]"
  by (cases a; cases x) (simp_all add: monoPixel_def spec_monochrome_table_def bytes32_def)

lemma decodeMonochrome_rows:
  assumes "unat (ShapePitch si * word_of_nat (unat (Height si) div 2))
             + (unat (Height si) div 2) * ((unat (Width si) + 7) div 8) \<le> length inb"
    and "4 * unat (Width si) * (unat (Height si) div 2) \<le> length out"
  shows "\<exists>px. decodeMonochrome si inb out = Ok px
           \<and> rows_done inb (drop (unat (ShapePitch si * word_of_nat (unat (Height si) div 2))) inb)
                ((unat (Width si) + 7) div 8) (unat (Width si)) (unat (Height si) div 2) out px"
proof -
  define width where "width = unat (Width si)"
  define height where "height = unat (Height si) div 2"
  define xo where "xo = unat (ShapePitch si * word_of_nat height)"
  define wb where "wb = (width + 7) div 8"
  from assms have b: "xo + height * wb \<le> length inb" and o: "4 * width * height \<le> length out"
    by (simp_all add: width_def height_def xo_def wb_def)
  have 1: "height * wb \<le> length inb" using b by simp
  have 2: "height * wb \<le> length (drop xo inb)" using b by simp
  have 3: "(width + 7) div 8 \<le> wb" by (simp add: wb_def)
  from mono_rows [OF 1 2 3 o]
  obtain px where run: "for_upto height (\<lambda>j. for_upto width (monoStep inb (drop xo inb) width wb j)) out = Ok px"
    and rd: "rows_done inb (drop xo inb) wb width height out px" by blast
  have "\<not> length inb < xo" using b by simp
  then have "decodeMonochrome si inb out = Ok px"
    using run by (simp add: decodeMonochrome_def Let_def width_def height_def xo_def wb_def)
  with rd show ?thesis
    by (simp add: width_def height_def xo_def wb_def)
qed

lemma rows_done_pixel:
  assumes rd: "rows_done a x wb width height out px"
    and fit: "4 * width * height \<le> length out"
    and i: "i < width" and j: "j < height" and c: "c < 4"
  shows "px ! (4 * (j * width + i) + c) = bytes32 (monoPixel (maskBit a wb i j) (maskBit x wb i j)) ! c"
proof -
  let ?p = "4 * (j * width + i) + c"
  have q: "j * width + i < width * height"
  proof -
    have "j * width + i < j * width + width" using i by simp
    also have "\<dots> = width * Suc j" by simp
    also have "\<dots> \<le> width * height" using j by (intro mult_le_mono2) simp
    finally show ?thesis .
  qed
  then have plt: "?p < 4 * width * height" using c by simp
  then have pl: "?p < length out" using fit by simp
  have d4: "?p div 4 = j * width + i" and m4: "?p mod 4 = c"
    using c div4_block [of "j * width + i" ?p] by simp_all
  have dm: "(j * width + i) div width = j" "(j * width + i) mod width = i"
    using i by simp_all
  from rd pl plt have "px ! ?p =
      bytes32 (monoPixel (maskBit a wb (?p div 4 mod width) (?p div 4 div width))
                         (maskBit x wb (?p div 4 mod width) (?p div 4 div width))) ! (?p mod 4)"
    unfolding rows_done_def by simp
  then show ?thesis unfolding d4 m4 dm .
qed


lemma RGBA_At_dense:
  assumes r: "Rect img = \<lparr>MinX = 0, MinY = 0, MaxX = int W, MaxY = int H\<rparr>"
    and st: "Stride img = 4 * int W" and l: "length (Pix img) = 4 * W * H"
    and i: "i < W" and j: "j < H"
  shows "RGBA_At img (int i) (int j) =
     Ok \<lparr>colR = Pix img ! (4 * (j * W + i)), colG = Pix img ! (4 * (j * W + i) + 1),
         colB = Pix img ! (4 * (j * W + i) + 2), colA = Pix img ! (4 * (j * W + i) + 3)\<rparr>"
proof -
  define k where "k = 4 * (j * W + i)"
  have inr: "In (int i) (int j) (Rect img)" using r i j by (simp add: In_def)
  have off: "PixOffset img (int i) (int j) = int k"
    using r st by (simp add: PixOffset_def k_def algebra_simps)
  have "j * W + i < j * W + W" using i by simp
  also have "\<dots> = W * Suc j" by simp
  also have "\<dots> \<le> W * H" using j by (intro mult_le_mono2) simp
  finally have "k + 4 \<le> length (Pix img)" using l by (simp add: k_def)
  then have fit: "\<not> (int k < 0 \<or> int (length (Pix img)) < int k + 4)"
    by linarith
  have "RGBA_At img (int i) (int j) =
     Ok \<lparr>colR = Pix img ! k, colG = Pix img ! (k + 1),
         colB = Pix img ! (k + 2), colA = Pix img ! (k + 3)\<rparr>"
    unfolding RGBA_At_def off Let_def using inr fit by simp
  then show ?thesis unfolding k_def .
qed

lemma newShapeOut_Ok:
  assumes "4 * unat (Width si) * unat (Height si) < 2 ^ 63"
  shows "newShapeOut si = Ok \<lparr>Pix = replicate (4 * unat (Width si) * unat (Height si)) 0,
            Stride = 4 * int (unat (Width si)),
            Rect = \<lparr>MinX = 0, MinY = 0, MaxX = int (unat (Width si)), MaxY = int (unat (Height si))\<rparr>\<rparr>"
proof -
  have h: "unat (Height si div 2) = unat (Height si) div 2" by (simp add: unat_div)
  have "unat (Width si) * (unat (Height si) div 2) \<le> unat (Width si) * unat (Height si)"
    by (intro mult_le_mono2) simp
  then have "\<not> 4 * unat (Width si) * unat (Height si) < unat (Width si) * unat (Height si div 2) * 4"
    unfolding h by linarith
  moreover have "\<not> (2::int) ^ 63 \<le> 4 * int (unat (Width si)) * int (unat (Height si))"
  proof -
    have "int (4 * unat (Width si) * unat (Height si)) < int (2 ^ 63)"
      using assms by (simp only: of_nat_less_iff)
    then show ?thesis by simp
  qed
  ultimately show ?thesis
    unfolding newShapeOut_def NewRGBA_def Let_def by simp
qed


lemma grow_props:
  assumes "wf_slice (shapeInBuffer (pointerInfo w))"
  shows "n \<le> len (shapeInBuffer (pointerInfo (growShapeInBuffer n w)))"
    and "wf_slice (shapeInBuffer (pointerInfo (growShapeInBuffer n w)))"
    and "outputDuplication (growShapeInBuffer n w) = outputDuplication w"
  using assms
  by (auto simp: growShapeInBuffer_def setPointerInfo_def make_slice_def wf_slice_def)

lemma fetch_props:
  assumes "wf_slice (shapeInBuffer (pointerInfo w))"
    and "unat (PointerShapeBufferSize info) \<le> len (shapeInBuffer (pointerInfo w))"
  shows "len (shapeInBuffer (pointerInfo (fetchShape pv info w))) = len (shapeInBuffer (pointerInfo w))"
    and "wf_slice (shapeInBuffer (pointerInfo (fetchShape pv info w)))"
  using assms
  by (auto simp: fetchShape_def setPointerInfo_def called_def provider_write_def wf_slice_def)

lemma length_elems: "wf_slice s \<Longrightarrow> length (elems s) = len s"
  by (simp add: elems_def wf_slice_def)

text \<open>
  What the decoder computes. A frame brings a new monochrome shape whose two mask planes,
  as the decoder reads them, lie within the reported buffer size: the decoder takes for
  the AND bit of pixel \<open>(i, j)\<close> bit
  \<open>7 - i mod 8\<close> of byte \<open>j * widthBytes + i div 8\<close> of the raw buffer, with
  \<open>widthBytes = (width + 7) div 8\<close>, and for the XOR bit the same bit of the same byte
  counted from \<open>xor_offset = Pitch * height\<close>. Then \<open>updatePointer\<close> returns without an
  error, the shape size is the width and half the reported height, and every pixel
  \<open>(i, j)\<close> of the decoded image within that size, read with \<open>At\<close>, is the pixel of the
  four-case table for these two bits: \<open>(0,0)\<close> transparent, \<open>(0,1)\<close> opaque
  white, \<open>(1,0)\<close> transparent, \<open>(1,1)\<close> opaque black.
\<close>

lemma monochrome_decode_as_read:
  fixes pv info w
  defines "si \<equiv> GetFramePointerShape_info pv"
  defines "width \<equiv> unat (Width si)"
  defines "height \<equiv> unat (Height si) div 2"
  defines "xor_offset \<equiv> unat (ShapePitch si * word_of_nat height)"
  defines "widthBytes \<equiv> (width + 7) div 8"
  assumes upd: "LastMouseUpdateTime info \<noteq> 0" "PointerShapeBufferSize info \<noteq> 0"
    and live: "outputDuplication w \<noteq> None"
    and wf: "len (shapeInBuffer (pointerInfo w)) \<le> cap (shapeInBuffer (pointerInfo w))"
    and hr: "GetFramePointerShape_hr pv = 0"
    and mono: "ShapeType si = DXGI_OUTDUPL_POINTER_SHAPE_TYPE_MONOCHROME"
    and small: "4 * unat (Width si) * unat (Height si) < 2 ^ 63"
    and planes: "xor_offset + height * widthBytes \<le> unat (PointerShapeBufferSize info)"
  shows "\<exists>w' a img. updatePointer pv info w = Ok (None, w')
     \<and> shapeOutBuffer (pointerInfo w') = Some (a, img)
     \<and> size_ptr (pointerInfo w') = \<lparr>X = Width si, Y = Height si div 2\<rparr>
     \<and> (\<forall>i<width. \<forall>j<height.
          RGBA_At img (int i) (int j) =
            Ok (spec_monochrome_table
                  (maskBit (elems (shapeInBuffer (pointerInfo w'))) widthBytes i j)
                  (maskBit (drop xor_offset (elems (shapeInBuffer (pointerInfo w')))) widthBytes i j)))"
proof -
  define n where "n = unat (PointerShapeBufferSize info)"
  define wA where "wA = setPointerInfo (\<lambda>p. p\<lparr>visible := (PointerVisible info \<noteq> 0),
                                        pos := PointerPosition info\<rparr>) w"
  define wB where "wB = growShapeInBuffer n wA"
  define wC where "wC = fetchShape pv info wB"
  define inb where "inb = elems (shapeInBuffer (pointerInfo wC))"
  define img0 where "img0 = \<lparr>Pix = replicate (4 * unat (Width si) * unat (Height si)) 0,
            Stride = 4 * int (unat (Width si)),
            Rect = \<lparr>MinX = 0, MinY = 0, MaxX = int (unat (Width si)), MaxY = int (unat (Height si))\<rparr>\<rparr>"
  have wfA: "wf_slice (shapeInBuffer (pointerInfo wA))"
    using wf by (simp add: wA_def setPointerInfo_def wf_slice_def cap_def)
  have liveA: "outputDuplication wA \<noteq> None"
    using live by (simp add: wA_def setPointerInfo_def)
  note gB = grow_props [OF wfA, of n, folded wB_def]
  have nB: "unat (PointerShapeBufferSize info) \<le> len (shapeInBuffer (pointerInfo wB))"
    using gB(1) by (simp add: n_def)
  note fC = fetch_props [OF gB(2) nB, of pv, folded wC_def]
  have linb: "n \<le> length inb"
    using fC gB(1) by (simp add: inb_def length_elems)
  have step1: "updatePointer pv info w = updateShape pv info wA"
    using upd by (simp add: updatePointer_def wA_def Let_def)
  have img: "newShapeOut si = Ok img0"
    unfolding img0_def by (rule newShapeOut_Ok [OF small])
  obtain d where d: "outputDuplication wB = Some d"
    using gB(3) liveA by auto
  have step2: "updateShape pv info wA =
      decodeShape si (heapNext wC) img0 (wC\<lparr>heapNext := Suc (heapNext wC)\<rparr>)"
    using hr d img
    by (simp add: updateShape_def Let_def n_def [symmetric] wB_def [symmetric]
        wC_def [symmetric] si_def [symmetric])
  have b1: "unat (ShapePitch si * word_of_nat (unat (Height si) div 2))
             + (unat (Height si) div 2) * ((unat (Width si) + 7) div 8) \<le> length inb"
    using planes linb
    by (simp add: xor_offset_def height_def widthBytes_def width_def n_def)
  have "unat (Width si) * (unat (Height si) div 2) \<le> unat (Width si) * unat (Height si)"
    by (intro mult_le_mono2) simp
  then have b2: "4 * unat (Width si) * (unat (Height si) div 2) \<le> length (Pix img0)"
    by (simp add: img0_def)
  from decodeMonochrome_rows [OF b1 b2]
  obtain px where px: "decodeMonochrome si inb (Pix img0) = Ok px"
    and rd: "rows_done inb (drop xor_offset inb) widthBytes width height (Pix img0) px"
    by (auto simp: xor_offset_def height_def widthBytes_def width_def)
  define w' where "w' = setPointerInfo (\<lambda>p. p\<lparr>size_ptr := \<lparr>X = Width si, Y = Height si div 2\<rparr>,
                           shapeOutBuffer := Some (heapNext wC, img0\<lparr>Pix := px\<rparr>)\<rparr>)
                         (wC\<lparr>heapNext := Suc (heapNext wC)\<rparr>)"
  have step3: "decodeShape si (heapNext wC) img0 (wC\<lparr>heapNext := Suc (heapNext wC)\<rparr>) = Ok (None, w')"
    using mono px
    by (simp add: decodeShape_def Let_def setPointerInfo_def inb_def w'_def)
  have run: "updatePointer pv info w = Ok (None, w')"
    using step1 step2 step3 by simp
  have so: "shapeOutBuffer (pointerInfo w') = Some (heapNext wC, img0\<lparr>Pix := px\<rparr>)"
    and sz: "size_ptr (pointerInfo w') = \<lparr>X = Width si, Y = Height si div 2\<rparr>"
    and si': "elems (shapeInBuffer (pointerInfo w')) = inb"
    by (simp_all add: w'_def setPointerInfo_def inb_def)
  have lpx: "length px = 4 * unat (Width si) * unat (Height si)"
    using rd by (simp add: rows_done_def img0_def)
  have px_at: "RGBA_At (img0\<lparr>Pix := px\<rparr>) (int i) (int j) =
            Ok (spec_monochrome_table (maskBit inb widthBytes i j)
                  (maskBit (drop xor_offset inb) widthBytes i j))"
    if i: "i < width" and j: "j < height" for i j
  proof -
    have jH: "j < unat (Height si)" using j by (simp add: height_def)
    have iW: "i < unat (Width si)" using i by (simp add: width_def)
    have at: "RGBA_At (img0\<lparr>Pix := px\<rparr>) (int i) (int j) =
       Ok \<lparr>colR = px ! (4 * (j * width + i)), colG = px ! (4 * (j * width + i) + 1),
         colB = px ! (4 * (j * width + i) + 2), colA = px ! (4 * (j * width + i) + 3)\<rparr>"
      using RGBA_At_dense [of "img0\<lparr>Pix := px\<rparr>" "unat (Width si)" "unat (Height si)" i j] lpx iW jH
      by (simp add: img0_def width_def)
    have fit: "4 * width * height \<le> length (Pix img0)"
      using b2 by (simp add: width_def height_def)
    note pix = rows_done_pixel [OF rd fit i j]
    have "px ! (4 * (j * width + i)) = colR (spec_monochrome_table (maskBit inb widthBytes i j)
                  (maskBit (drop xor_offset inb) widthBytes i j))"
      using pix [of 0] by (simp add: monoPixel_table)
    moreover have "px ! (4 * (j * width + i) + 1) = colG (spec_monochrome_table (maskBit inb widthBytes i j)
                  (maskBit (drop xor_offset inb) widthBytes i j))"
      using pix [of 1] by (simp add: monoPixel_table)
    moreover have "px ! (4 * (j * width + i) + 2) = colB (spec_monochrome_table (maskBit inb widthBytes i j)
                  (maskBit (drop xor_offset inb) widthBytes i j))"
      using pix [of 2] by (simp add: monoPixel_table)
    moreover have "px ! (4 * (j * width + i) + 3) = colA (spec_monochrome_table (maskBit inb widthBytes i j)
                  (maskBit (drop xor_offset inb) widthBytes i j))"
      using pix [of 3] by (simp add: monoPixel_table)
    ultimately show ?thesis using at by simp
  qed
  show ?thesis
  proof (intro exI [of _ w'] exI [of _ "heapNext wC"] exI [of _ "img0\<lparr>Pix := px\<rparr>"]
      conjI allI impI)
    show "updatePointer pv info w = Ok (None, w')" by (rule run)
    show "shapeOutBuffer (pointerInfo w') = Some (heapNext wC, img0\<lparr>Pix := px\<rparr>)" by (rule so)
    show "size_ptr (pointerInfo w') = \<lparr>X = Width si, Y = Height si div 2\<rparr>" by (rule sz)
    fix i j assume "i < width" and "j < height"
    then show "RGBA_At (img0\<lparr>Pix := px\<rparr>) (int i) (int j) =
            Ok (spec_monochrome_table
                  (maskBit (elems (shapeInBuffer (pointerInfo w'))) widthBytes i j)
                  (maskBit (drop xor_offset (elems (shapeInBuffer (pointerInfo w')))) widthBytes i j))"
      unfolding si' by (rule px_at)
  qed
qed


lemma monochrome_decode_as_read_example:
  "\<exists>w' a img. updatePointer monoProvider shapeFrame (newDuplicator False) = Ok (None, w')
     \<and> shapeOutBuffer (pointerInfo w') = Some (a, img)
     \<and> size_ptr (pointerInfo w') = \<lparr>X = 2, Y = 2\<rparr>
     \<and> RGBA_At img 0 0 = Ok \<lparr>colR = 255, colG = 255, colB = 255, colA = 255\<rparr>
     \<and> RGBA_At img 1 0 = Ok \<lparr>colR = 0, colG = 0, colB = 0, colA = 0\<rparr>
     \<and> RGBA_At img 0 1 = Ok \<lparr>colR = 0, colG = 0, colB = 0, colA = 0\<rparr>
     \<and> RGBA_At img 1 1 = Ok \<lparr>colR = 0, colG = 0, colB = 0, colA = 255\<rparr>"
proof -
  have si: "GetFramePointerShape_info monoProvider
      = \<lparr>ShapeType = 1, Width = 2, Height = 4, ShapePitch = 1\<rparr>"
    by (simp add: monoProvider_def quietProvider_def)
  have h1: "LastMouseUpdateTime shapeFrame \<noteq> 0" "PointerShapeBufferSize shapeFrame \<noteq> 0"
    by (simp_all add: shapeFrame_def)
  have h2: "outputDuplication (newDuplicator False) \<noteq> None"
    by (simp add: newDuplicator_def)
  have h3: "len (shapeInBuffer (pointerInfo (newDuplicator False)))
      \<le> cap (shapeInBuffer (pointerInfo (newDuplicator False)))"
    by (simp add: newDuplicator_def nil_slice_def)
  have h4: "GetFramePointerShape_hr monoProvider = 0"
    by (simp add: monoProvider_def quietProvider_def)
  have h5: "ShapeType (GetFramePointerShape_info monoProvider) = DXGI_OUTDUPL_POINTER_SHAPE_TYPE_MONOCHROME"
    by (simp add: si DXGI_OUTDUPL_POINTER_SHAPE_TYPE_MONOCHROME_def)
  have h6: "4 * unat (Width (GetFramePointerShape_info monoProvider))
      * unat (Height (GetFramePointerShape_info monoProvider)) < 2 ^ 63"
    by (simp add: si)
  have h7: "unat (ShapePitch (GetFramePointerShape_info monoProvider)
                  * word_of_nat (unat (Height (GetFramePointerShape_info monoProvider)) div 2))
      + unat (Height (GetFramePointerShape_info monoProvider)) div 2
        * ((unat (Width (GetFramePointerShape_info monoProvider)) + 7) div 8)
      \<le> unat (PointerShapeBufferSize shapeFrame)"
    by (simp add: si shapeFrame_def)
  from monochrome_decode_as_read [OF h1 h2 h3 h4 h5 h6 h7]
  obtain w' a img where run: "updatePointer monoProvider shapeFrame (newDuplicator False) = Ok (None, w')"
    and out: "shapeOutBuffer (pointerInfo w') = Some (a, img)"
    and sz: "size_ptr (pointerInfo w') = \<lparr>X = 2, Y = 2\<rparr>"
    and px: "\<And>i j. i < 2 \<Longrightarrow> j < 2 \<Longrightarrow> RGBA_At img (int i) (int j) =
            Ok (spec_monochrome_table
                  (maskBit (elems (shapeInBuffer (pointerInfo w'))) 1 i j)
                  (maskBit (drop 2 (elems (shapeInBuffer (pointerInfo w')))) 1 i j))"
    by (auto simp: si)
  have "(case updatePointer monoProvider shapeFrame (newDuplicator False) of
     Ok r \<Rightarrow> elems (shapeInBuffer (pointerInfo (snd r))) = [0x40, 0x40, 0x80, 0x40]
   | Panic \<Rightarrow> False)"
    by code_simp
  with run have raw: "elems (shapeInBuffer (pointerInfo w')) = [0x40, 0x40, 0x80, 0x40]"
    by simp
  have "RGBA_At img 0 0 = Ok \<lparr>colR = 255, colG = 255, colB = 255, colA = 255\<rparr>"
    using px [of 0 0] by (simp add: raw maskBit_def spec_monochrome_table_def)
  moreover have "RGBA_At img 1 0 = Ok \<lparr>colR = 0, colG = 0, colB = 0, colA = 0\<rparr>"
    using px [of 1 0] by (simp add: raw maskBit_def spec_monochrome_table_def)
  moreover have "RGBA_At img 0 1 = Ok \<lparr>colR = 0, colG = 0, colB = 0, colA = 0\<rparr>"
    using px [of 0 1] by (simp add: raw maskBit_def spec_monochrome_table_def)
  moreover have "RGBA_At img 1 1 = Ok \<lparr>colR = 0, colG = 0, colB = 0, colA = 255\<rparr>"
    using px [of 1 1] by (simp add: raw maskBit_def spec_monochrome_table_def)
  ultimately show ?thesis using run out sz by blast
qed



text \<open>
  C1 at a shape whose pitch is not \<open>(width + 7) div 8\<close>. The shape is 2 by 2 with a
  pitch of 4. At the coordinate \<open>(0, 1)\<close> its AND bit and its XOR bit are both 1 (bit 7
  of the bytes 4 and 12), for which the table gives the opaque black marker. The decoder
  places the XOR bitmap with the pitch but steps through the rows with
  \<open>widthBytes = 1\<close>: it reads the bytes 1 and 9, which are padding, and the decoded pixel
  \<open>(0, 1)\<close> is transparent.
\<close>

theorem monochrome_rows_ignore_pitch:
  "(case updatePointer paddedMonoProvider paddedShapeFrame (newDuplicator False) of
      Ok r \<Rightarrow>
        fst r = None
        \<and> size_ptr (pointerInfo (snd r)) = \<lparr>X = 2, Y = 2\<rparr>
        \<and> (case shapeOutBuffer (pointerInfo (snd r)) of
             Some ai \<Rightarrow>
               spec_plane_bit (GetFramePointerShape_bytes paddedMonoProvider) 4 0 1
               \<and> spec_plane_bit (drop (4 * 2) (GetFramePointerShape_bytes paddedMonoProvider)) 4 0 1
               \<and> spec_monochrome_table True True = \<lparr>colR = 0, colG = 0, colB = 0, colA = 255\<rparr>
               \<and> RGBA_At (snd ai) 0 1 = Ok \<lparr>colR = 0, colG = 0, colB = 0, colA = 0\<rparr>
           | None \<Rightarrow> False)
    | Panic \<Rightarrow> False)"
  by code_simp

section \<open>The transient result\<close>


lemma decodeShape_error:
  "decodeShape si a img w = Ok (e, w') \<Longrightarrow>
     e = (if ShapeType si = DXGI_OUTDUPL_POINTER_SHAPE_TYPE_MONOCHROME
            \<or> ShapeType si = DXGI_OUTDUPL_POINTER_SHAPE_TYPE_COLOR
            \<or> ShapeType si = DXGI_OUTDUPL_POINTER_SHAPE_TYPE_MASKED_COLOR
          then None else Some (ErrUnsupportedType (ShapeType si)))"
  by (auto simp: decodeShape_def Let_def split: if_splits res.splits)

lemma updateShape_error:
  "updateShape pv fi w = Ok (e, w') \<Longrightarrow>
     e = (if GetFramePointerShape_hr pv \<noteq> 0 then Some ErrPointerShape
          else if ShapeType (GetFramePointerShape_info pv) = DXGI_OUTDUPL_POINTER_SHAPE_TYPE_MONOCHROME
            \<or> ShapeType (GetFramePointerShape_info pv) = DXGI_OUTDUPL_POINTER_SHAPE_TYPE_COLOR
            \<or> ShapeType (GetFramePointerShape_info pv) = DXGI_OUTDUPL_POINTER_SHAPE_TYPE_MASKED_COLOR
          then None else Some (ErrUnsupportedType (ShapeType (GetFramePointerShape_info pv))))"
  unfolding updateShape_def Let_def
  by (auto split: option.splits if_splits res.splits dest!: decodeShape_error)

lemma updatePointer_error:
  "updatePointer pv fi w = Ok (e, w') \<Longrightarrow> e = updatePointer_error pv fi"
  unfolding updatePointer_def updatePointer_error_def Let_def
  by (auto split: if_splits dest!: updateShape_error)

lemma updatePointer_error_not_NoImage: "updatePointer_error pv fi \<noteq> Some ErrNoImageYet"
  by (simp add: updatePointer_error_def)


lemma ReleaseFrame_UpdatePointerInfo:
  "ReleaseFrame w = Ok w1 \<Longrightarrow> UpdatePointerInfo w1 = UpdatePointerInfo w"
  by (auto simp: ReleaseFrame_def called_def split: if_splits option.splits)

lemma copyFrame_error:
  "copyFrame pv fi w = Some (Ok (Some e, w')) \<Longrightarrow> e \<noteq> ErrNoImageYet"
  unfolding copyFrame_def
  by (auto split: if_splits option.splits res.splits prod.splits)

lemma snapshotTexture_error:
  "snapshotTexture pv fi w = Some (Ok (r, w')) \<Longrightarrow> ret_err r \<noteq> Some ErrNoImageYet"
  unfolding snapshotTexture_def Let_def
  by (auto simp: failure_def success_def
      split: if_splits option.splits res.splits prod.splits dest: copyFrame_error)

lemma snapshotFrame_NoImage:
  assumes "snapshotFrame pv fi w = Some (Ok (r, w'))"
  shows "(ret_err r = Some ErrNoImageYet \<longleftrightarrow>
           (UpdatePointerInfo w \<longrightarrow> updatePointer_error pv fi = None) \<and> AccumulatedFrames fi = 0)
         \<and> (ret_err r = Some ErrNoImageYet \<longrightarrow> r = failure ErrNoImageYet)"
proof (cases "UpdatePointerInfo w")
  case False
  with assms show ?thesis
    unfolding snapshotFrame_def Let_def
    by (auto simp: failure_def split: if_splits option.splits res.splits dest: snapshotTexture_error)
next
  case True
  with assms obtain e w1 where up: "updatePointer pv fi w = Ok (e, w1)"
    unfolding snapshotFrame_def by (auto split: res.splits)
  have e: "e = updatePointer_error pv fi" using up by (rule updatePointer_error)
  show ?thesis
  proof (cases e)
    case (Some x)
    with assms True up have "r = failure x" unfolding snapshotFrame_def by simp
    moreover have "x \<noteq> ErrNoImageYet"
      using e Some updatePointer_error_not_NoImage [of pv fi] by auto
    ultimately show ?thesis using e Some True by (auto simp: failure_def)
  next
    case None
    with assms True up e show ?thesis
      unfolding snapshotFrame_def Let_def
      by (auto simp: failure_def split: if_splits option.splits res.splits dest: snapshotTexture_error)
  qed
qed

lemma TIMEOUT_Failed: "Failed DXGI_ERROR_WAIT_TIMEOUT"
  by (simp add: Failed_def DXGI_ERROR_WAIT_TIMEOUT_def)

lemma snapshotAcquire_NoImage:
  assumes "snapshotAcquire pv t w = Some (Ok (r, w'))"
  shows "(ret_err r = Some ErrNoImageYet \<longleftrightarrow>
           AcquireNextFrame_hr pv = DXGI_ERROR_WAIT_TIMEOUT
           \<or> (\<not> Failed (AcquireNextFrame_hr pv)
               \<and> (UpdatePointerInfo w \<longrightarrow> updatePointer_error pv (AcquireNextFrame_info pv) = None)
               \<and> AccumulatedFrames (AcquireNextFrame_info pv) = 0))
         \<and> (ret_err r = Some ErrNoImageYet \<longrightarrow> r = failure ErrNoImageYet)"
proof -
  from assms obtain w1 where w1: "ReleaseFrame w = Ok w1"
    unfolding snapshotAcquire_def by (auto split: res.splits)
  define w2 where "w2 = (called (OutputDuplication_AcquireNextFrame (word_of_nat t)) w1)
                      \<lparr>acquiredFrame := True,
                       frameHeld := (if Failed (AcquireNextFrame_hr pv) then frameHeld w1 else True)\<rparr>"
  have u: "UpdatePointerInfo w2 = UpdatePointerInfo w"
    using ReleaseFrame_UpdatePointerInfo [OF w1] by (simp add: w2_def called_def)
  show ?thesis
  proof (cases "Failed (AcquireNextFrame_hr pv)")
    case True
    with assms w1 show ?thesis
      unfolding snapshotAcquire_def Let_def
      by (auto simp: failure_def split: if_splits)
  next
    case False
    then have nt: "AcquireNextFrame_hr pv \<noteq> DXGI_ERROR_WAIT_TIMEOUT"
      using TIMEOUT_Failed by auto
    from assms w1 False obtain w3 where
      f: "snapshotFrame pv (AcquireNextFrame_info pv) w2 = Some (Ok (r, w3))"
      unfolding snapshotAcquire_def Let_def w2_def
      by (auto split: option.splits res.splits)
    from snapshotFrame_NoImage [OF f] False nt u show ?thesis by simp
  qed
qed


lemma mapDesktop_fields:
  "UpdatePointerInfo (mapDesktop pv w) = UpdatePointerInfo w"
  "outputDuplication (mapDesktop pv w) = outputDuplication w"
  "acquiredFrame (mapDesktop pv w) = acquiredFrame w"
  by (simp_all add: mapDesktop_def called_def)

lemma called_fields:
  "UpdatePointerInfo (called c w) = UpdatePointerInfo w"
  "outputDuplication (called c w) = outputDuplication w"
  "acquiredFrame (called c w) = acquiredFrame w"
  by (simp_all add: called_def)

lemma Snapshot_acquire:
  assumes "outputDuplication w \<noteq> None" and "reaches_acquire pv"
  shows "Snapshot pv t w = snapshotAcquire pv t
           (if DesktopImageInSystemMemory pv \<noteq> 0
            then mapDesktop pv (called OutputDuplication_GetDesc w)
            else called OutputDuplication_GetDesc w)"
  using assms unfolding Snapshot_def reaches_acquire_def Let_def
  by (auto split: option.splits)

lemma Snapshot_not_acquire:
  assumes "Snapshot pv t w = Some (Ok (r, w'))" and "\<not> reaches_acquire pv"
  shows "ret_err r \<noteq> Some ErrNoImageYet"
  using assms unfolding Snapshot_def reaches_acquire_def Let_def
  by (auto simp: failure_def success_def split: option.splits if_splits)

lemma snapshotAcquire_timeout:
  assumes "outputDuplication w \<noteq> None" and "AcquireNextFrame_hr pv = DXGI_ERROR_WAIT_TIMEOUT"
  shows "\<exists>w'. snapshotAcquire pv t w = Some (Ok (failure ErrNoImageYet, w'))"
  using assms TIMEOUT_Failed unfolding snapshotAcquire_def Let_def ReleaseFrame_def
  by (auto split: option.splits)

lemma snapshotAcquire_zero_frames:
  assumes "outputDuplication w \<noteq> None" and "\<not> Failed (AcquireNextFrame_hr pv)"
    and "AccumulatedFrames (AcquireNextFrame_info pv) = 0"
    and "UpdatePointerInfo w \<longrightarrow> LastMouseUpdateTime (AcquireNextFrame_info pv) = 0"
  shows "\<exists>w'. snapshotAcquire pv t w = Some (Ok (failure ErrNoImageYet, w'))"
proof -
  obtain d where d: "outputDuplication w = Some d" using assms(1) by auto
  define w1 where "w1 = (if acquiredFrame w
      then (called OutputDuplication_ReleaseFrame w)\<lparr>acquiredFrame := False, frameHeld := False\<rparr> else w)"
  have r1: "ReleaseFrame w = Ok w1" using d by (simp add: ReleaseFrame_def w1_def)
  define w2 where "w2 = (called (OutputDuplication_AcquireNextFrame (word_of_nat t)) w1)
                      \<lparr>acquiredFrame := True, frameHeld := True\<rparr>"
  have u2: "UpdatePointerInfo w2 = UpdatePointerInfo w" and o2: "outputDuplication w2 = Some d"
    and a2: "acquiredFrame w2"
    using d by (simp_all add: w2_def w1_def called_def)
  have f: "snapshotFrame pv (AcquireNextFrame_info pv) w2 = Some (Ok (failure ErrNoImageYet, w2))"
    using assms(3,4) u2 by (simp add: snapshotFrame_def updatePointer_def)
  have r2: "ReleaseFrame (called Desktop_Release w2) =
      Ok ((called OutputDuplication_ReleaseFrame (called Desktop_Release w2))
             \<lparr>acquiredFrame := False, frameHeld := False\<rparr>)"
    using o2 a2 by (simp add: ReleaseFrame_def called_def)
  show ?thesis
    using r1 f r2 assms(2) unfolding snapshotAcquire_def Let_def w2_def
    by simp
qed

text \<open>
  C3, as the code has it. On a duplicator with its provider handle: when \<open>Snapshot\<close> gets
  to \<open>AcquireNextFrame\<close> and that reports the timeout, it returns \<open>ErrNoImageYet\<close>; when
  the frame is acquired with no accumulated update and the pointer update is off or has
  nothing to do, it returns \<open>ErrNoImageYet\<close>; and whenever \<open>Snapshot\<close> returns, its error
  is \<open>ErrNoImageYet\<close> exactly when it got to \<open>AcquireNextFrame\<close> and either that timed out,
  or it succeeded, the pointer update (when enabled) returned no error, and the frame has
  no accumulated update. With that error the three other results are nil.
\<close>

theorem no_image_yet_cases:
  assumes live: "outputDuplication w \<noteq> None"
  shows "(reaches_acquire pv \<and> AcquireNextFrame_hr pv = DXGI_ERROR_WAIT_TIMEOUT
            \<longrightarrow> (\<exists>w'. Snapshot pv t w = Some (Ok (failure ErrNoImageYet, w'))))
       \<and> (reaches_acquire pv \<and> \<not> Failed (AcquireNextFrame_hr pv)
            \<and> AccumulatedFrames (AcquireNextFrame_info pv) = 0
            \<and> (UpdatePointerInfo w \<longrightarrow> LastMouseUpdateTime (AcquireNextFrame_info pv) = 0)
            \<longrightarrow> (\<exists>w'. Snapshot pv t w = Some (Ok (failure ErrNoImageYet, w'))))
       \<and> (\<forall>r w'. Snapshot pv t w = Some (Ok (r, w')) \<longrightarrow>
            (ret_err r = Some ErrNoImageYet \<longleftrightarrow>
               reaches_acquire pv
               \<and> (AcquireNextFrame_hr pv = DXGI_ERROR_WAIT_TIMEOUT
                  \<or> (\<not> Failed (AcquireNextFrame_hr pv)
                     \<and> (UpdatePointerInfo w \<longrightarrow>
                           updatePointer_error pv (AcquireNextFrame_info pv) = None)
                     \<and> AccumulatedFrames (AcquireNextFrame_info pv) = 0)))
            \<and> (ret_err r = Some ErrNoImageYet \<longrightarrow>
                  ret_unmap r = None \<and> ret_rect r = None \<and> ret_size r = None))"
proof (intro conjI impI allI)
  define wa where "wa = (if DesktopImageInSystemMemory pv \<noteq> 0
            then mapDesktop pv (called OutputDuplication_GetDesc w)
            else called OutputDuplication_GetDesc w)"
  have la: "outputDuplication wa \<noteq> None" and ua: "UpdatePointerInfo wa = UpdatePointerInfo w"
    using live by (simp_all add: wa_def mapDesktop_fields called_fields)
  {
    assume "reaches_acquire pv \<and> AcquireNextFrame_hr pv = DXGI_ERROR_WAIT_TIMEOUT"
    then show "\<exists>w'. Snapshot pv t w = Some (Ok (failure ErrNoImageYet, w'))"
      using Snapshot_acquire [OF live, of pv t] snapshotAcquire_timeout [OF la, of pv t]
      by (simp add: wa_def)
  }
  {
    assume "reaches_acquire pv \<and> \<not> Failed (AcquireNextFrame_hr pv)
            \<and> AccumulatedFrames (AcquireNextFrame_info pv) = 0
            \<and> (UpdatePointerInfo w \<longrightarrow> LastMouseUpdateTime (AcquireNextFrame_info pv) = 0)"
    then show "\<exists>w'. Snapshot pv t w = Some (Ok (failure ErrNoImageYet, w'))"
      using Snapshot_acquire [OF live, of pv t] snapshotAcquire_zero_frames [OF la, of pv t] ua
      by (simp add: wa_def)
  }
  fix r w' assume s: "Snapshot pv t w = Some (Ok (r, w'))"
  have both: "(ret_err r = Some ErrNoImageYet \<longleftrightarrow>
               reaches_acquire pv
               \<and> (AcquireNextFrame_hr pv = DXGI_ERROR_WAIT_TIMEOUT
                  \<or> (\<not> Failed (AcquireNextFrame_hr pv)
                     \<and> (UpdatePointerInfo w \<longrightarrow>
                           updatePointer_error pv (AcquireNextFrame_info pv) = None)
                     \<and> AccumulatedFrames (AcquireNextFrame_info pv) = 0)))
            \<and> (ret_err r = Some ErrNoImageYet \<longrightarrow> r = failure ErrNoImageYet)"
  proof (cases "reaches_acquire pv")
    case False
    with Snapshot_not_acquire [OF s] show ?thesis by simp
  next
    case True
    with s Snapshot_acquire [OF live True, of t]
    have "snapshotAcquire pv t wa = Some (Ok (r, w'))" by (simp add: wa_def)
    from snapshotAcquire_NoImage [OF this] True ua show ?thesis by simp
  qed
  from both show "ret_err r = Some ErrNoImageYet \<longleftrightarrow>
               reaches_acquire pv
               \<and> (AcquireNextFrame_hr pv = DXGI_ERROR_WAIT_TIMEOUT
                  \<or> (\<not> Failed (AcquireNextFrame_hr pv)
                     \<and> (UpdatePointerInfo w \<longrightarrow>
                           updatePointer_error pv (AcquireNextFrame_info pv) = None)
                     \<and> AccumulatedFrames (AcquireNextFrame_info pv) = 0))"
    by blast
  assume "ret_err r = Some ErrNoImageYet"
  with both have "r = failure ErrNoImageYet" by blast
  then show "ret_unmap r = None" "ret_rect r = None" "ret_size r = None"
    by (simp_all add: failure_def)
qed



theorem no_image_yet_cases_witness:
  "\<exists>r w'. Snapshot timeoutProvider 0 (newDuplicator False) = Some (Ok (r, w'))
     \<and> ret_err r = Some ErrNoImageYet
     \<and> ret_unmap r = None \<and> ret_rect r = None \<and> ret_size r = None"
proof -
  have live: "outputDuplication (newDuplicator False) \<noteq> None"
    by (simp add: newDuplicator_def)
  have reach: "reaches_acquire timeoutProvider \<and> AcquireNextFrame_hr timeoutProvider = DXGI_ERROR_WAIT_TIMEOUT"
    by (simp add: reaches_acquire_def timeoutProvider_def quietProvider_def Failed_def)
  note t = no_image_yet_cases [OF live, of timeoutProvider 0]
  from t reach obtain w' where
    s: "Snapshot timeoutProvider 0 (newDuplicator False) = Some (Ok (failure ErrNoImageYet, w'))"
    by blast
  have e: "ret_err (failure ErrNoImageYet) = Some ErrNoImageYet" by (simp add: failure_def)
  from t s e have "ret_unmap (failure ErrNoImageYet) = None \<and> ret_rect (failure ErrNoImageYet) = None
      \<and> ret_size (failure ErrNoImageYet) = None"
    by blast
  with s e show ?thesis by blast
qed

text \<open>
  The claim C3 as stated fails: a frame is acquired whose accumulated-frame counter is
  zero, and \<open>Snapshot\<close> returns the error of the pointer update, not \<open>ErrNoImageYet\<close>.
\<close>

theorem zero_frames_other_error:
  "\<not> Failed (AcquireNextFrame_hr pointerFailProvider)
   \<and> AccumulatedFrames (AcquireNextFrame_info pointerFailProvider) = 0
   \<and> (case Snapshot pointerFailProvider 0 ((newDuplicator False)\<lparr>UpdatePointerInfo := True\<rparr>) of
        Some (Ok x) \<Rightarrow> ret_err (fst x) = Some ErrPointerShape
      | _ \<Rightarrow> False)"
  by code_simp


section \<open>Unsupported pointer shapes\<close>


lemma decodeShape_frame:
  "decodeShape si a img w = Ok (e, w') \<Longrightarrow>
     capture_state w' = capture_state w \<and> acquiredFrame w' = acquiredFrame w
     \<and> frameHeld w' = frameHeld w \<and> calls w' = calls w"
  by (auto simp: decodeShape_def Let_def setPointerInfo_def capture_state_def
      split: if_splits res.splits)

lemma updateShape_frame:
  "updateShape pv fi w = Ok (e, w') \<Longrightarrow>
     capture_state w' = capture_state w \<and> acquiredFrame w' = acquiredFrame w
     \<and> frameHeld w' = frameHeld w"
  unfolding updateShape_def Let_def
  by (auto simp: growShapeInBuffer_def fetchShape_def setPointerInfo_def called_def capture_state_def
      split: option.splits if_splits res.splits dest!: decodeShape_frame)

lemma updatePointer_frame:
  "updatePointer pv fi w = Ok (e, w') \<Longrightarrow>
     capture_state w' = capture_state w \<and> acquiredFrame w' = acquiredFrame w
     \<and> frameHeld w' = frameHeld w"
  unfolding updatePointer_def Let_def
  by (auto simp: setPointerInfo_def capture_state_def split: if_splits dest!: updateShape_frame)


lemma updatePointer_unsupported:
  assumes upd: "LastMouseUpdateTime fi \<noteq> 0" "PointerShapeBufferSize fi \<noteq> 0"
    and live: "outputDuplication w \<noteq> None"
    and hr: "GetFramePointerShape_hr pv = 0"
    and ty: "\<not> supported_shape (ShapeType (GetFramePointerShape_info pv))"
    and small: "4 * unat (Width (GetFramePointerShape_info pv))
                  * unat (Height (GetFramePointerShape_info pv)) < 2 ^ 63"
  shows "\<exists>w'. updatePointer pv fi w
            = Ok (Some (ErrUnsupportedType (ShapeType (GetFramePointerShape_info pv))), w')
          \<and> size_ptr (pointerInfo w') = \<lparr>X = 0, Y = 0\<rparr>"
proof -
  obtain d where d: "outputDuplication w = Some d" using live by auto
  note img = newShapeOut_Ok [OF small]
  show ?thesis
    using upd d hr ty img
    by (simp add: updatePointer_def updateShape_def Let_def growShapeInBuffer_def
        setPointerInfo_def decodeShape_def supported_shape_def)
qed

text \<open>
  C4, as the code has it. \<open>Snapshot\<close> gets as far as acquiring a frame and acquires one;
  the pointer update is on; the frame brings a new shape, \<open>GetFramePointerShape\<close> returns
  0, the shape's type is none of monochrome, colour and masked colour, and its dimensions
  are within what \<open>image.NewRGBA\<close> accepts. Then \<open>Snapshot\<close> returns the unsupported-type
  error and no frame result; the pointer shape size is \<open>(0, 0)\<close>; the frame has been
  released; and the frame-capture state is the one before the call, but for the size and
  the mapped rect when the description reported the desktop image in system memory and
  \<open>MapDesktopSurface\<close> failed: that attempt has stored the mode's size and the rect
  before the frame was acquired.
\<close>

theorem unsupported_shape_aborts_snapshot:
  assumes live: "outputDuplication w \<noteq> None"
    and flag: "UpdatePointerInfo w"
    and desc: "reaches_acquire pv"
    and acq: "\<not> Failed (AcquireNextFrame_hr pv)"
    and upd: "LastMouseUpdateTime (AcquireNextFrame_info pv) \<noteq> 0"
             "PointerShapeBufferSize (AcquireNextFrame_info pv) \<noteq> 0"
    and hr: "GetFramePointerShape_hr pv = 0"
    and ty: "\<not> supported_shape (ShapeType (GetFramePointerShape_info pv))"
    and small: "4 * unat (Width (GetFramePointerShape_info pv))
                  * unat (Height (GetFramePointerShape_info pv)) < 2 ^ 63"
  shows "\<exists>w'. Snapshot pv t w
            = Some (Ok (\<lparr>ret_unmap = None, ret_rect = None, ret_size = None,
                          ret_err = Some (ErrUnsupportedType (ShapeType (GetFramePointerShape_info pv)))\<rparr>,
                        w'))
          \<and> size_ptr (pointerInfo w') = \<lparr>X = 0, Y = 0\<rparr>
          \<and> capture_state w' =
              capture_state
                (if DesktopImageInSystemMemory pv = 0 then w
                 else w\<lparr>size_dup := \<lparr>X = ModeDesc_Width pv, Y = ModeDesc_Height pv\<rparr>,
                        mappedRect := MapDesktopSurface_rect pv\<rparr>)
          \<and> \<not> acquiredFrame w' \<and> \<not> frameHeld w'"
proof -
  let ?e = "ErrUnsupportedType (ShapeType (GetFramePointerShape_info pv))"
  let ?fi = "AcquireNextFrame_info pv"
  let ?w = "if DesktopImageInSystemMemory pv = 0 then w
            else w\<lparr>size_dup := \<lparr>X = ModeDesc_Width pv, Y = ModeDesc_Height pv\<rparr>,
                   mappedRect := MapDesktopSurface_rect pv\<rparr>"
  obtain d where d: "outputDuplication w = Some d" using live by auto
  define w0 where "w0 = (if DesktopImageInSystemMemory pv = 0 then called OutputDuplication_GetDesc w
                         else mapDesktop pv (called OutputDuplication_GetDesc w))"
  define w1 where "w1 = (if acquiredFrame w0
      then (called OutputDuplication_ReleaseFrame w0)\<lparr>acquiredFrame := False, frameHeld := False\<rparr>
      else w0)"
  define w2 where "w2 = (called (OutputDuplication_AcquireNextFrame (word_of_nat t)) w1)
                      \<lparr>acquiredFrame := True, frameHeld := True\<rparr>"
  have s0: "Snapshot pv t w = snapshotAcquire pv t w0"
    using d desc by (auto simp: Snapshot_def Let_def w0_def reaches_acquire_def)
  have d0: "outputDuplication w0 = Some d"
    using d by (simp add: w0_def mapDesktop_def called_def)
  have r1: "ReleaseFrame w0 = Ok w1"
    using d0 by (simp add: ReleaseFrame_def w1_def)
  have c0: "capture_state w0 = capture_state ?w"
    by (simp add: w0_def mapDesktop_def called_def capture_state_def)
  have f0: "UpdatePointerInfo w0"
    using flag by (simp add: w0_def mapDesktop_def called_def)
  have f2: "outputDuplication w2 \<noteq> None" "UpdatePointerInfo w2" "acquiredFrame w2"
    using d0 f0 by (simp_all add: w2_def w1_def called_def)
  have "capture_state w2 = capture_state w0"
    by (simp add: w2_def w1_def called_def capture_state_def)
  with c0 have c2: "capture_state w2 = capture_state ?w" by simp
  from updatePointer_unsupported [OF upd f2(1) hr ty small]
  obtain w3 where u: "updatePointer pv ?fi w2 = Ok (Some ?e, w3)"
    and z: "size_ptr (pointerInfo w3) = \<lparr>X = 0, Y = 0\<rparr>" by blast
  note fr = updatePointer_frame [OF u]
  have o3: "outputDuplication w3 = outputDuplication w2"
  proof -
    have "outputDuplication (capture_state w3) = outputDuplication (capture_state w2)"
      using fr by simp
    then show ?thesis by (simp add: capture_state_def)
  qed
  have sf: "snapshotFrame pv ?fi w2 = Some (Ok (failure ?e, w3))"
    using f2(2) u by (simp add: snapshotFrame_def)
  define w4 where "w4 = (called OutputDuplication_ReleaseFrame (called Desktop_Release w3))
                          \<lparr>acquiredFrame := False, frameHeld := False\<rparr>"
  have r4: "ReleaseFrame (called Desktop_Release w3) = Ok w4"
    using fr f2 o3 by (auto simp: ReleaseFrame_def called_def w4_def)
  have run: "snapshotAcquire pv t w0 = Some (Ok (failure ?e, w4))"
    using r1 acq sf r4 unfolding snapshotAcquire_def Let_def w2_def by simp
  have c4: "capture_state w4 = capture_state w3"
    by (simp add: w4_def called_def capture_state_def)
  have p4: "size_ptr (pointerInfo w4) = \<lparr>X = 0, Y = 0\<rparr>" "\<not> acquiredFrame w4" "\<not> frameHeld w4"
    using z by (simp_all add: w4_def called_def)
  have c: "capture_state w4 = capture_state ?w"
    using c4 fr c2 by simp
  have "Snapshot pv t w = Some (Ok (\<lparr>ret_unmap = None, ret_rect = None, ret_size = None,
                          ret_err = Some ?e\<rparr>, w4))"
    using s0 run by (simp add: failure_def)
  with p4 c show ?thesis by blast
qed

text \<open>
  The theorem at a description that reports the desktop image in system memory, with a
  failing \<open>MapDesktopSurface\<close>, and a shape of the type 3.
\<close>

theorem unsupported_shape_aborts_snapshot_witness:
  "\<exists>w'. Snapshot unmappableProvider 0 ((newDuplicator False)\<lparr>UpdatePointerInfo := True\<rparr>)
            = Some (Ok (\<lparr>ret_unmap = None, ret_rect = None, ret_size = None,
                          ret_err = Some (ErrUnsupportedType 3)\<rparr>, w'))
        \<and> size_ptr (pointerInfo w') = \<lparr>X = 0, Y = 0\<rparr>
        \<and> capture_state w' =
            capture_state ((newDuplicator False)
                \<lparr>UpdatePointerInfo := True, size_dup := \<lparr>X = 2, Y = 1\<rparr>,
                 mappedRect := \<lparr>Pitch = 0, PBits = []\<rparr>\<rparr>)
        \<and> \<not> acquiredFrame w' \<and> \<not> frameHeld w'"
  using unsupported_shape_aborts_snapshot
          [of "(newDuplicator False)\<lparr>UpdatePointerInfo := True\<rparr>" unmappableProvider 0]
  by (simp add: unmappableProvider_def unsupportedProvider_def quietProvider_def shapeFrame_def
      newDuplicator_def reaches_acquire_def
      Failed_def supported_shape_def DXGI_OUTDUPL_POINTER_SHAPE_TYPE_MONOCHROME_def
      DXGI_OUTDUPL_POINTER_SHAPE_TYPE_COLOR_def DXGI_OUTDUPL_POINTER_SHAPE_TYPE_MASKED_COLOR_def)

text \<open>
  The claim C4 as stated fails: the frame has an accumulated update, its shape has the
  type 3, and the capture call yields the error and nil for the three frame results.
\<close>

theorem unsupported_shape_no_frame_result:
  "AccumulatedFrames (AcquireNextFrame_info unsupportedProvider) = 1
   \<and> (case Snapshot unsupportedProvider 0 ((newDuplicator False)\<lparr>UpdatePointerInfo := True\<rparr>) of
        Some (Ok x) \<Rightarrow> ret_err (fst x) = Some (ErrUnsupportedType 3)
                        \<and> ret_unmap (fst x) = None \<and> ret_rect (fst x) = None \<and> ret_size (fst x) = None
      | _ \<Rightarrow> False)"
  by code_simp

section \<open>The desktop image in system memory\<close>

text \<open>
  C10. When the description reports the desktop image in system memory and
  \<open>MapDesktopSurface\<close> succeeds, \<open>Snapshot\<close> returns the mapped desktop surface with
  \<open>UnMapDesktopSurface\<close>, and the state after the call is the state before it with the
  mapped rect and the size set and the two calls \<open>GetDesc\<close> and \<open>MapDesktopSurface\<close>
  added to the trace: no frame is released or acquired, the frame flags and the pointer
  state are as before, whatever \<open>UpdatePointerInfo\<close> says.
\<close>

theorem fast_path_returns_mapped_desktop:
  assumes "outputDuplication w \<noteq> None" and "\<not> Failed (GetDesc_hr pv)"
    and "DesktopImageInSystemMemory pv \<noteq> 0" and "\<not> Failed (MapDesktopSurface_hr pv)"
  shows "Snapshot pv t w =
     Some (Ok (\<lparr>ret_unmap = Some Unmap_DesktopSurface,
                 ret_rect = Some (MapDesktopSurface_rect pv),
                 ret_size = Some \<lparr>X = ModeDesc_Width pv, Y = ModeDesc_Height pv\<rparr>,
                 ret_err = None\<rparr>,
               w\<lparr>mappedRect := MapDesktopSurface_rect pv,
                  size_dup := \<lparr>X = ModeDesc_Width pv, Y = ModeDesc_Height pv\<rparr>,
                  calls := calls w @ [OutputDuplication_GetDesc, OutputDuplication_MapDesktopSurface]\<rparr>))"
proof -
  obtain d where d: "outputDuplication w = Some d" using assms(1) by auto
  have m: "mapDesktop pv (called OutputDuplication_GetDesc w) =
      w\<lparr>mappedRect := MapDesktopSurface_rect pv,
        size_dup := \<lparr>X = ModeDesc_Width pv, Y = ModeDesc_Height pv\<rparr>,
        calls := calls w @ [OutputDuplication_GetDesc, OutputDuplication_MapDesktopSurface]\<rparr>"
    by (simp add: mapDesktop_def called_def)
  show ?thesis
    using d assms(2-4) unfolding Snapshot_def Let_def m
    by (simp add: success_def)
qed

theorem fast_path_returns_mapped_desktop_witness:
  "Snapshot desktopProvider 0
     ((newDuplicator False)\<lparr>UpdatePointerInfo := True, acquiredFrame := True, frameHeld := True\<rparr>) =
     Some (Ok (\<lparr>ret_unmap = Some Unmap_DesktopSurface,
                 ret_rect = Some \<lparr>Pitch = 8, PBits = [1, 2, 3, 4, 5, 6, 7, 8]\<rparr>,
                 ret_size = Some \<lparr>X = 2, Y = 1\<rparr>,
                 ret_err = None\<rparr>,
               (newDuplicator False)\<lparr>UpdatePointerInfo := True, acquiredFrame := True, frameHeld := True,
                  mappedRect := \<lparr>Pitch = 8, PBits = [1, 2, 3, 4, 5, 6, 7, 8]\<rparr>,
                  size_dup := \<lparr>X = 2, Y = 1\<rparr>,
                  calls := [OutputDuplication_GetDesc, OutputDuplication_MapDesktopSurface]\<rparr>))"
  using fast_path_returns_mapped_desktop
    [of "(newDuplicator False)\<lparr>UpdatePointerInfo := True, acquiredFrame := True, frameHeld := True\<rparr>"
        desktopProvider 0]
  by (simp add: desktopProvider_def quietProvider_def newDuplicator_def Failed_def)

section \<open>The frame flag after a failed acquisition\<close>

text \<open>
  C2 at a timeout. A fresh duplicator takes a snapshot and \<open>AcquireNextFrame\<close> reports the
  timeout: \<open>Snapshot\<close> returns \<open>ErrNoImageYet\<close> with \<open>acquiredFrame\<close> set, and the provider
  holds no frame.
\<close>

theorem timeout_leaves_flag_set:
  "(case Snapshot timeoutProvider 0 (newDuplicator False) of
      Some (Ok x) \<Rightarrow> ret_err (fst x) = Some ErrNoImageYet
                      \<and> acquiredFrame (snd x) \<and> \<not> frameHeld (snd x)
                      \<and> calls (snd x) = [OutputDuplication_GetDesc, OutputDuplication_AcquireNextFrame 0]
    | _ \<Rightarrow> False)"
  by code_simp



section \<open>The copy strategy\<close>


lemma copies_called: "copies (called c w) = copies w @ (if isCopy c then [c] else [])"
  by (simp add: copies_def called_def)

lemma rectsLoop_more:
  "Failed (ans_hr a) \<Longrightarrow> ans_hr a = DXGI_ERROR_MORE_DATA \<Longrightarrow>
   rectsLoop mk z (a # as) req (s, h, tr) =
     rectsLoop mk z as (ans_required a)
       (provider_write (len (growSlice h z (unat req) s)) (ans_rects a) (growSlice h z (unat req) s),
        growHeap h (unat req) s, tr @ [mk (len (growSlice h z (unat req) s))])"
  by (simp add: Let_def)

lemma rectsLoop_last:
  "\<not> (Failed (ans_hr a) \<and> ans_hr a = DXGI_ERROR_MORE_DATA) \<Longrightarrow>
   rectsLoop mk z (a # as) req (s, h, tr) = Some (Ok (e, s', h', tr')) \<Longrightarrow>
   h' = growHeap h (unat req) s \<and> tr' = tr @ [mk (len (growSlice h z (unat req) s))]
   \<and> (if Failed (ans_hr a)
       then e = Some (ans_hr a)
            \<and> s' = provider_write (len (growSlice h z (unat req) s)) (ans_rects a) (growSlice h z (unat req) s)
       else e = None \<and> unat (ans_required a) \<le> cap s'
            \<and> s' = (provider_write (len (growSlice h z (unat req) s)) (ans_rects a)
                      (growSlice h z (unat req) s))\<lparr>len := unat (ans_required a)\<rparr>)"
  by (auto simp: Let_def cap_def split: if_splits)









lemma strategy_view: "copy_view w' = copy_view w \<Longrightarrow> strategy fi w' = strategy fi w"
  by (simp add: copy_view_def strategy_def)
























section \<open>The reusable buffers\<close>


lemma MORE_DATA_Failed: "Failed DXGI_ERROR_MORE_DATA"
  by (simp add: Failed_def DXGI_ERROR_MORE_DATA_def)

lemma growSlice_cases:
  "(len s < n \<and> growSlice h z n s = make_slice h z n \<and> growHeap h n s = Suc h)
   \<or> (\<not> len s < n \<and> growSlice h z n s = s \<and> growHeap h n s = h)"
  by (simp add: growSlice_def growHeap_def)

lemma provider_write_fields [simp]:
  "arr (provider_write n bs s) = arr s" "len (provider_write n bs s) = len s"
  by (simp_all add: provider_write_def)

lemma cap_provider_write:
  "n \<le> cap s \<Longrightarrow> cap (provider_write n bs s) = cap s"
  by (simp add: provider_write_def cap_def)

lemma rectsLoop_fresh:
  assumes "rectsLoop mk z as req (s, h, tr) = Some (Ok (e, s', h', tr'))" and "len s \<le> cap s"
  shows "h \<le> h' \<and> ((arr s' = arr s \<and> cap s' = cap s \<and> h' = h) \<or> (h \<le> arr s' \<and> arr s' < h'))"
  using assms
proof (induction as arbitrary: req s h tr)
  case Nil
  then show ?case by simp
next
  case (Cons a as)
  define s1 where "s1 = growSlice h z (unat req) s"
  define h1 where "h1 = growHeap h (unat req) s"
  define s2 where "s2 = provider_write (len s1) (ans_rects a) s1"
  have wf1: "len s1 \<le> cap s1"
    using Cons.prems(2) by (simp add: s1_def growSlice_def make_slice_def cap_def)
  have a2: "arr s2 = arr s1" "len s2 = len s1" and c2: "cap s2 = cap s1"
    using wf1 by (simp_all add: s2_def cap_provider_write)
  have step: "(arr s1 = h \<and> h1 = Suc h) \<or> (s1 = s \<and> h1 = h)"
    using growSlice_cases [of s "unat req" h z] by (auto simp: s1_def h1_def make_slice_def)
  have final: "h1 \<le> h' \<and> ((arr s' = arr s2 \<and> cap s' = cap s2 \<and> h' = h1) \<or> (h1 \<le> arr s' \<and> arr s' < h'))"
  proof (cases "Failed (ans_hr a) \<and> ans_hr a = DXGI_ERROR_MORE_DATA")
    case True
    then have f: "Failed (ans_hr a)" and md: "ans_hr a = DXGI_ERROR_MORE_DATA" by blast+
    note eq = rectsLoop_more [OF f md, of mk z as req s h tr]
    have "rectsLoop mk z as (ans_required a) (s2, h1, tr @ [mk (len s1)]) = Some (Ok (e, s', h', tr'))"
      unfolding s2_def h1_def s1_def using Cons.prems(1) [unfolded eq] .
    from Cons.IH [OF this] a2 c2 wf1 show ?thesis by simp
  next
    case False
    from rectsLoop_last [OF False Cons.prems(1)]
    have "h' = h1" and "s' = s2 \<or> s' = s2\<lparr>len := unat (ans_required a)\<rparr>"
      by (auto simp: s1_def h1_def s2_def split: if_splits)
    then show ?thesis by (auto simp: cap_def)
  qed
  from step final a2 c2 show ?case by auto
qed

lemma rectsLoop_grows:
  assumes "rectsLoop mk z as req (s, h, tr) = Some (Ok (e, s', h', tr'))"
    and "len s \<le> cap s" and "arr s < h"
  shows "arr s' \<noteq> arr s \<longleftrightarrow> grows as req (len s)"
  using assms
proof (induction as arbitrary: req s h tr)
  case Nil
  then show ?case by simp
next
  case (Cons a as)
  define s1 where "s1 = growSlice h z (unat req) s"
  define h1 where "h1 = growHeap h (unat req) s"
  define s2 where "s2 = provider_write (len s1) (ans_rects a) s1"
  have wf1: "len s1 \<le> cap s1"
    using Cons.prems(2) by (simp add: s1_def growSlice_def make_slice_def cap_def)
  have a2: "arr s2 = arr s1" "len s2 = len s1" and c2: "cap s2 = cap s1"
    using wf1 by (simp_all add: s2_def cap_provider_write)
  show ?case
  proof (cases "len s < unat req")
    case True
    then have g: "arr s1 = h" "h1 = Suc h"
      by (simp_all add: s1_def h1_def growSlice_def growHeap_def make_slice_def)
    have "rectsLoop mk z (a # as) req (s, h, tr) = Some (Ok (e, s', h', tr'))" by fact
    have "h \<le> arr s'"
    proof (cases "Failed (ans_hr a) \<and> ans_hr a = DXGI_ERROR_MORE_DATA")
      case more: True
      then have f: "Failed (ans_hr a)" and md: "ans_hr a = DXGI_ERROR_MORE_DATA" by blast+
      note eq = rectsLoop_more [OF f md, of mk z as req s h tr]
      have r: "rectsLoop mk z as (ans_required a) (s2, h1, tr @ [mk (len s1)]) = Some (Ok (e, s', h', tr'))"
        unfolding s2_def h1_def s1_def using Cons.prems(1) [unfolded eq] .
      have "len s2 \<le> cap s2" using a2 c2 wf1 by simp
      from rectsLoop_fresh [OF r this] a2 g show ?thesis by auto
    next
      case False
      from rectsLoop_last [OF False Cons.prems(1)]
      have "s' = s2 \<or> s' = s2\<lparr>len := unat (ans_required a)\<rparr>"
        by (auto simp: s1_def h1_def s2_def split: if_splits)
      with a2 g show ?thesis by auto
    qed
    with Cons.prems(3) True show ?thesis by simp
  next
    case False
    then have g: "s1 = s" "h1 = h"
      by (simp_all add: s1_def h1_def growSlice_def growHeap_def)
    show ?thesis
    proof (cases "Failed (ans_hr a) \<and> ans_hr a = DXGI_ERROR_MORE_DATA")
      case more: True
      then have f: "Failed (ans_hr a)" and md: "ans_hr a = DXGI_ERROR_MORE_DATA" by blast+
      note eq = rectsLoop_more [OF f md, of mk z as req s h tr]
      have "rectsLoop mk z as (ans_required a) (s2, h1, tr @ [mk (len s1)]) = Some (Ok (e, s', h', tr'))"
        unfolding s2_def h1_def s1_def using Cons.prems(1) [unfolded eq] .
      then have r: "rectsLoop mk z as (ans_required a) (s2, h, tr @ [mk (len s)]) = Some (Ok (e, s', h', tr'))"
        using g by simp
      have w2: "len s2 \<le> cap s2" "arr s2 < h" "arr s2 = arr s" "len s2 = len s"
        using a2 c2 wf1 g Cons.prems(3) by simp_all
      from Cons.IH [OF r w2(1) w2(2)] w2 more False MORE_DATA_Failed show ?thesis by simp
    next
      case last: False
      from rectsLoop_last [OF last Cons.prems(1)]
      have "s' = s2 \<or> s' = s2\<lparr>len := unat (ans_required a)\<rparr>"
        by (auto simp: s1_def h1_def s2_def split: if_splits)
      with a2 g last False show ?thesis by auto
    qed
  qed
qed



lemma decodeShape_buffers:
  "decodeShape si a img w = Ok (e, w') \<Longrightarrow>
     shapeInBuffer (pointerInfo w') = shapeInBuffer (pointerInfo w)
     \<and> (\<exists>img'. shapeOutBuffer (pointerInfo w') = Some (a, img'))
     \<and> heapNext w' = heapNext w"
  by (auto simp: decodeShape_def Let_def setPointerInfo_def split: if_splits res.splits)

lemma growShapeInBuffer_cases:
  "(len (shapeInBuffer (pointerInfo w)) < n
      \<and> shapeInBuffer (pointerInfo (growShapeInBuffer n w)) = make_slice (heapNext w) 0 n
      \<and> heapNext (growShapeInBuffer n w) = Suc (heapNext w))
   \<or> (\<not> len (shapeInBuffer (pointerInfo w)) < n \<and> growShapeInBuffer n w = w)"
  by (simp add: growShapeInBuffer_def setPointerInfo_def)

lemma fetchShape_buffers:
  "arr (shapeInBuffer (pointerInfo (fetchShape pv fi w))) = arr (shapeInBuffer (pointerInfo w))"
  "len (shapeInBuffer (pointerInfo (fetchShape pv fi w))) = len (shapeInBuffer (pointerInfo w))"
  "heapNext (fetchShape pv fi w) = heapNext w"
  "unat (PointerShapeBufferSize fi) \<le> cap (shapeInBuffer (pointerInfo w)) \<Longrightarrow>
     cap (shapeInBuffer (pointerInfo (fetchShape pv fi w))) = cap (shapeInBuffer (pointerInfo w))"
  by (simp_all add: fetchShape_def setPointerInfo_def called_def cap_provider_write)

lemma updateShape_in_buffer:
  assumes u: "updateShape pv fi w = Ok (e, w')"
    and wf: "len (shapeInBuffer (pointerInfo w)) = cap (shapeInBuffer (pointerInfo w))"
    and old: "arr (shapeInBuffer (pointerInfo w)) < heapNext w"
  shows "(arr (shapeInBuffer (pointerInfo w')) \<noteq> arr (shapeInBuffer (pointerInfo w))
            \<longleftrightarrow> cap (shapeInBuffer (pointerInfo w)) < unat (PointerShapeBufferSize fi))
       \<and> (arr (shapeInBuffer (pointerInfo w')) \<noteq> arr (shapeInBuffer (pointerInfo w))
            \<longrightarrow> cap (shapeInBuffer (pointerInfo w')) = unat (PointerShapeBufferSize fi))
       \<and> (arr (shapeInBuffer (pointerInfo w')) = arr (shapeInBuffer (pointerInfo w))
            \<longrightarrow> cap (shapeInBuffer (pointerInfo w')) = cap (shapeInBuffer (pointerInfo w)))
       \<and> len (shapeInBuffer (pointerInfo w')) = cap (shapeInBuffer (pointerInfo w'))"
proof -
  define n where "n = unat (PointerShapeBufferSize fi)"
  define w1 where "w1 = growShapeInBuffer n w"
  define w2 where "w2 = fetchShape pv fi w1"
  let ?sb = "shapeInBuffer (pointerInfo w)"
  have g: "(len ?sb < n \<and> arr (shapeInBuffer (pointerInfo w1)) = heapNext w
              \<and> cap (shapeInBuffer (pointerInfo w1)) = n \<and> len (shapeInBuffer (pointerInfo w1)) = n)
         \<or> (\<not> len ?sb < n \<and> w1 = w)"
    using growShapeInBuffer_cases [of w n] by (auto simp: w1_def make_slice_def cap_def)
  then have n1: "n \<le> cap (shapeInBuffer (pointerInfo w1))" using wf by auto
  have f: "arr (shapeInBuffer (pointerInfo w2)) = arr (shapeInBuffer (pointerInfo w1))"
    "len (shapeInBuffer (pointerInfo w2)) = len (shapeInBuffer (pointerInfo w1))"
    "cap (shapeInBuffer (pointerInfo w2)) = cap (shapeInBuffer (pointerInfo w1))"
    using fetchShape_buffers [where pv = pv and fi = fi and w = w1] n1 by (simp_all add: w2_def n_def)
  have fin: "shapeInBuffer (pointerInfo w') = shapeInBuffer (pointerInfo w2)"
    using u unfolding updateShape_def Let_def n_def [symmetric] w1_def [symmetric] w2_def [symmetric]
    by (auto split: option.splits if_splits res.splits dest!: decodeShape_buffers)
  show ?thesis
    using g f wf old unfolding fin n_def [symmetric] by auto
qed

lemma updatePointer_in_buffer:
  assumes u: "updatePointer pv fi w = Ok (e, w')"
    and wf: "len (shapeInBuffer (pointerInfo w)) = cap (shapeInBuffer (pointerInfo w))"
    and old: "arr (shapeInBuffer (pointerInfo w)) < heapNext w"
  shows "(arr (shapeInBuffer (pointerInfo w')) \<noteq> arr (shapeInBuffer (pointerInfo w))
            \<longleftrightarrow> LastMouseUpdateTime fi \<noteq> 0 \<and> PointerShapeBufferSize fi \<noteq> 0
                \<and> cap (shapeInBuffer (pointerInfo w)) < unat (PointerShapeBufferSize fi))
       \<and> (arr (shapeInBuffer (pointerInfo w')) \<noteq> arr (shapeInBuffer (pointerInfo w))
            \<longrightarrow> cap (shapeInBuffer (pointerInfo w')) = unat (PointerShapeBufferSize fi))
       \<and> (arr (shapeInBuffer (pointerInfo w')) = arr (shapeInBuffer (pointerInfo w))
            \<longrightarrow> cap (shapeInBuffer (pointerInfo w')) = cap (shapeInBuffer (pointerInfo w)))
       \<and> len (shapeInBuffer (pointerInfo w')) = cap (shapeInBuffer (pointerInfo w'))"
proof (cases "LastMouseUpdateTime fi \<noteq> 0 \<and> PointerShapeBufferSize fi \<noteq> 0")
  case False
  with u have "shapeInBuffer (pointerInfo w') = shapeInBuffer (pointerInfo w)"
    unfolding updatePointer_def Let_def
    by (auto simp: setPointerInfo_def split: if_splits)
  with wf False show ?thesis by auto
next
  case True
  define wA where "wA = setPointerInfo (\<lambda>p. p\<lparr>visible := (PointerVisible fi \<noteq> 0),
                                        pos := PointerPosition fi\<rparr>) w"
  have sA: "shapeInBuffer (pointerInfo wA) = shapeInBuffer (pointerInfo w)" "heapNext wA = heapNext w"
    by (simp_all add: wA_def setPointerInfo_def)
  from u True have "updateShape pv fi wA = Ok (e, w')"
    unfolding updatePointer_def Let_def wA_def by simp
  from updateShape_in_buffer [OF this] wf old sA True show ?thesis by simp
qed

lemma updatePointer_out_buffer:
  assumes u: "updatePointer pv fi w = Ok (e, w')"
    and new: "LastMouseUpdateTime fi \<noteq> 0" "PointerShapeBufferSize fi \<noteq> 0"
    and hr: "GetFramePointerShape_hr pv = 0"
  shows "\<exists>a img. shapeOutBuffer (pointerInfo w') = Some (a, img) \<and> heapNext w \<le> a \<and> a < heapNext w'"
proof -
  define wA where "wA = setPointerInfo (\<lambda>p. p\<lparr>visible := (PointerVisible fi \<noteq> 0),
                                        pos := PointerPosition fi\<rparr>) w"
  define w1 where "w1 = growShapeInBuffer (unat (PointerShapeBufferSize fi)) wA"
  define w2 where "w2 = fetchShape pv fi w1"
  have h: "heapNext w \<le> heapNext w2"
    using growShapeInBuffer_cases [of wA "unat (PointerShapeBufferSize fi)"]
    by (auto simp: w2_def w1_def fetchShape_buffers wA_def setPointerInfo_def)
  from u new have us: "updateShape pv fi wA = Ok (e, w')"
    unfolding updatePointer_def Let_def wA_def by simp
  then obtain img where d: "decodeShape (GetFramePointerShape_info pv) (heapNext w2) img
                          (w2\<lparr>heapNext := Suc (heapNext w2)\<rparr>) = Ok (e, w')"
    using hr unfolding updateShape_def Let_def w1_def [symmetric] w2_def [symmetric]
    by (auto split: option.splits res.splits)
  from decodeShape_buffers [OF d] h show ?thesis by auto
qed



text \<open>
  When the buffers are replaced. A rect query loop that returns has replaced the rect slice by a
  fresh array exactly when some round asked for more elements than the slice's length on
  entry; otherwise array and capacity are the same. \<open>updatePointer\<close> on a duplicator
  whose raw shape buffer has its length equal to its capacity replaces that buffer by a
  fresh one, of the reported size, exactly when a new shape is reported with a size above
  the capacity; otherwise array and capacity are the same; length and capacity are equal
  afterwards. And every shape update whose \<open>GetFramePointerShape\<close> succeeded leaves a
  fresh output image.
\<close>

lemma buffers_replaced_by_length:
  "(rectsLoop mk z as req (s, h, tr) = Some (Ok (e, s', h', tr')) \<and> len s \<le> cap s \<and> arr s < h
      \<longrightarrow> (arr s' \<noteq> arr s \<longleftrightarrow> grows as req (len s))
          \<and> (arr s' = arr s \<longrightarrow> cap s' = cap s \<and> h' = h)
          \<and> (arr s' \<noteq> arr s \<longrightarrow> h \<le> arr s' \<and> arr s' < h'))
   \<and> (updatePointer pv fi w = Ok (e2, w')
        \<and> len (shapeInBuffer (pointerInfo w)) = cap (shapeInBuffer (pointerInfo w))
        \<and> arr (shapeInBuffer (pointerInfo w)) < heapNext w
      \<longrightarrow> (arr (shapeInBuffer (pointerInfo w')) \<noteq> arr (shapeInBuffer (pointerInfo w))
            \<longleftrightarrow> LastMouseUpdateTime fi \<noteq> 0 \<and> PointerShapeBufferSize fi \<noteq> 0
                \<and> cap (shapeInBuffer (pointerInfo w)) < unat (PointerShapeBufferSize fi))
          \<and> (arr (shapeInBuffer (pointerInfo w')) \<noteq> arr (shapeInBuffer (pointerInfo w))
               \<longrightarrow> cap (shapeInBuffer (pointerInfo w')) = unat (PointerShapeBufferSize fi))
          \<and> (arr (shapeInBuffer (pointerInfo w')) = arr (shapeInBuffer (pointerInfo w))
               \<longrightarrow> cap (shapeInBuffer (pointerInfo w')) = cap (shapeInBuffer (pointerInfo w)))
          \<and> len (shapeInBuffer (pointerInfo w')) = cap (shapeInBuffer (pointerInfo w')))
   \<and> (updatePointer pv fi w = Ok (e2, w')
        \<and> LastMouseUpdateTime fi \<noteq> 0 \<and> PointerShapeBufferSize fi \<noteq> 0
        \<and> GetFramePointerShape_hr pv = 0
      \<longrightarrow> (\<exists>a img. shapeOutBuffer (pointerInfo w') = Some (a, img)
                   \<and> heapNext w \<le> a \<and> a < heapNext w'))"
proof -
  have p1: "rectsLoop mk z as req (s, h, tr) = Some (Ok (e, s', h', tr')) \<and> len s \<le> cap s \<and> arr s < h
      \<longrightarrow> (arr s' \<noteq> arr s \<longleftrightarrow> grows as req (len s))
          \<and> (arr s' = arr s \<longrightarrow> cap s' = cap s \<and> h' = h)
          \<and> (arr s' \<noteq> arr s \<longrightarrow> h \<le> arr s' \<and> arr s' < h')"
  proof
    assume a: "rectsLoop mk z as req (s, h, tr) = Some (Ok (e, s', h', tr')) \<and> len s \<le> cap s \<and> arr s < h"
    then have l: "rectsLoop mk z as req (s, h, tr) = Some (Ok (e, s', h', tr'))"
      and wf: "len s \<le> cap s" and old: "arr s < h" by blast+
    have g: "arr s' \<noteq> arr s \<longleftrightarrow> grows as req (len s)"
      by (rule rectsLoop_grows [OF l wf old])
    from rectsLoop_fresh [OF l wf] old
    have "(arr s' = arr s \<longrightarrow> cap s' = cap s \<and> h' = h)
        \<and> (arr s' \<noteq> arr s \<longrightarrow> h \<le> arr s' \<and> arr s' < h')"
      by auto
    with g show "(arr s' \<noteq> arr s \<longleftrightarrow> grows as req (len s))
          \<and> (arr s' = arr s \<longrightarrow> cap s' = cap s \<and> h' = h)
          \<and> (arr s' \<noteq> arr s \<longrightarrow> h \<le> arr s' \<and> arr s' < h')"
      by blast
  qed
  have p2: "updatePointer pv fi w = Ok (e2, w')
        \<and> len (shapeInBuffer (pointerInfo w)) = cap (shapeInBuffer (pointerInfo w))
        \<and> arr (shapeInBuffer (pointerInfo w)) < heapNext w
      \<longrightarrow> (arr (shapeInBuffer (pointerInfo w')) \<noteq> arr (shapeInBuffer (pointerInfo w))
            \<longleftrightarrow> LastMouseUpdateTime fi \<noteq> 0 \<and> PointerShapeBufferSize fi \<noteq> 0
                \<and> cap (shapeInBuffer (pointerInfo w)) < unat (PointerShapeBufferSize fi))
          \<and> (arr (shapeInBuffer (pointerInfo w')) \<noteq> arr (shapeInBuffer (pointerInfo w))
               \<longrightarrow> cap (shapeInBuffer (pointerInfo w')) = unat (PointerShapeBufferSize fi))
          \<and> (arr (shapeInBuffer (pointerInfo w')) = arr (shapeInBuffer (pointerInfo w))
               \<longrightarrow> cap (shapeInBuffer (pointerInfo w')) = cap (shapeInBuffer (pointerInfo w)))
          \<and> len (shapeInBuffer (pointerInfo w')) = cap (shapeInBuffer (pointerInfo w'))"
  proof
    assume a: "updatePointer pv fi w = Ok (e2, w')
        \<and> len (shapeInBuffer (pointerInfo w)) = cap (shapeInBuffer (pointerInfo w))
        \<and> arr (shapeInBuffer (pointerInfo w)) < heapNext w"
    then have u: "updatePointer pv fi w = Ok (e2, w')"
      and wf: "len (shapeInBuffer (pointerInfo w)) = cap (shapeInBuffer (pointerInfo w))"
      and old: "arr (shapeInBuffer (pointerInfo w)) < heapNext w" by blast+
    show "(arr (shapeInBuffer (pointerInfo w')) \<noteq> arr (shapeInBuffer (pointerInfo w))
            \<longleftrightarrow> LastMouseUpdateTime fi \<noteq> 0 \<and> PointerShapeBufferSize fi \<noteq> 0
                \<and> cap (shapeInBuffer (pointerInfo w)) < unat (PointerShapeBufferSize fi))
          \<and> (arr (shapeInBuffer (pointerInfo w')) \<noteq> arr (shapeInBuffer (pointerInfo w))
               \<longrightarrow> cap (shapeInBuffer (pointerInfo w')) = unat (PointerShapeBufferSize fi))
          \<and> (arr (shapeInBuffer (pointerInfo w')) = arr (shapeInBuffer (pointerInfo w))
               \<longrightarrow> cap (shapeInBuffer (pointerInfo w')) = cap (shapeInBuffer (pointerInfo w)))
          \<and> len (shapeInBuffer (pointerInfo w')) = cap (shapeInBuffer (pointerInfo w'))"
      by (rule updatePointer_in_buffer [OF u wf old])
  qed
  have p3: "updatePointer pv fi w = Ok (e2, w')
        \<and> LastMouseUpdateTime fi \<noteq> 0 \<and> PointerShapeBufferSize fi \<noteq> 0
        \<and> GetFramePointerShape_hr pv = 0
      \<longrightarrow> (\<exists>a img. shapeOutBuffer (pointerInfo w') = Some (a, img)
                   \<and> heapNext w \<le> a \<and> a < heapNext w')"
    using updatePointer_out_buffer [of pv fi w e2 w'] by blast
  show ?thesis by (rule conjI [OF p1 conjI [OF p2 p3]])
qed

lemma buffers_replaced_by_length_example:
  "\<exists>e s' h' tr'.
     rectsLoop OutputDuplication_GetFrameDirtyRects zeroRECT
       [\<lparr>ans_hr = 0, ans_required = 0, ans_rects = []\<rparr>] 1 (emptiedSlice, 9, [])
       = Some (Ok (e, s', h', tr'))
     \<and> cap emptiedSlice = 2 \<and> arr s' \<noteq> arr emptiedSlice \<and> 9 \<le> arr s' \<and> arr s' < h'"
proof -
  have "\<exists>e s' h' tr'.
     rectsLoop OutputDuplication_GetFrameDirtyRects zeroRECT
       [\<lparr>ans_hr = 0, ans_required = 0, ans_rects = []\<rparr>] 1 (emptiedSlice, 9, [])
       = Some (Ok (e, s', h', tr'))"
    by (simp add: Let_def Failed_def cap_def provider_write_def growSlice_def make_slice_def
        emptiedSlice_def)
  then obtain e s' h' tr' where l:
    "rectsLoop OutputDuplication_GetFrameDirtyRects zeroRECT
       [\<lparr>ans_hr = 0, ans_required = 0, ans_rects = []\<rparr>] 1 (emptiedSlice, 9, [])
       = Some (Ok (e, s', h', tr'))"
    by blast
  have pre: "len emptiedSlice \<le> cap emptiedSlice \<and> arr emptiedSlice < 9" and c: "cap emptiedSlice = 2"
    by (simp_all add: emptiedSlice_def cap_def)
  have g: "grows [\<lparr>ans_hr = 0, ans_required = 0, ans_rects = ([]::RECT list)\<rparr>] 1 (len emptiedSlice)"
    by (simp add: emptiedSlice_def)
  from buffers_replaced_by_length
         [of OutputDuplication_GetFrameDirtyRects zeroRECT
             "[\<lparr>ans_hr = 0, ans_required = 0, ans_rects = []\<rparr>]" 1 emptiedSlice 9 "[]" e s' h' tr']
       l pre g
  have "arr s' \<noteq> arr emptiedSlice \<and> 9 \<le> arr s' \<and> arr s' < h'" by blast
  with l c show ?thesis by blast
qed

text \<open>
  C7 on three snapshots. The frame of the first has two moved rects, the frames of the
  second and the third have none. After the second snapshot the moved-rect slice has the
  capacity 2 and, cut to the count retrieved, the length 0. The query of the third
  snapshot starts with the count 1, which is within the capacity; the loop compares the
  count with the length, so the slice is replaced by a fresh array, and its capacity
  shrinks to 1.
\<close>

theorem rect_buffer_shrinks:
  "(case Snapshot twoMovesProvider 0 (newDuplicator False) of
      Some (Ok x) \<Rightarrow>
        (case Snapshot noMovesProvider 0 (snd x) of
           Some (Ok y) \<Rightarrow>
             (case Snapshot noMovesProvider 0 (snd y) of
                Some (Ok z) \<Rightarrow>
                  cap (movedRects (snd y)) = 2 \<and> len (movedRects (snd y)) = 0
                  \<and> cap (movedRects (snd z)) = 1
                  \<and> arr (movedRects (snd z)) \<noteq> arr (movedRects (snd y))
              | _ \<Rightarrow> False)
         | _ \<Rightarrow> False)
    | _ \<Rightarrow> False)"
  by code_simp

section \<open>The pixel transfer\<close>

lemma copyRow_step_lin:
  assumes fit: "a + cw \<le> length px" and src: "b + cw \<le> length data"
  shows "copyRow data (int cw) (int pitch) i (int a, int b, px) =
     Ok (int (a + cw), int (b + pitch),
         take a px @ take cw (drop b data) @ drop (a + cw) px)"
proof -
  have d: "nat (int b + int cw) - nat (int b) = cw"
    by (simp add: nat_add_distrib)
  have l: "length (take cw (drop b data)) = cw" using src by simp
  have m: "min (length px - a) cw = cw" using fit by simp
  have c1: "\<not> (int a < 0 \<or> int (length px) < int a)" using fit by simp
  have c2: "\<not> (int b < 0 \<or> int b + int cw < int b \<or> int (length data) < int b + int cw)"
    using src by (simp flip: of_nat_add)
  show ?thesis
    unfolding copyRow_def Let_def prod.case d using c1 c2 l m
    by simp
qed

lemma copyRow_step:
  assumes fit: "n * cw + cw \<le> length px" and src: "n * pitch + cw \<le> length data"
  shows "copyRow data (int cw) (int pitch) i (int (n * cw), int (n * pitch), px) =
     Ok (int (Suc n * cw), int (Suc n * pitch),
         take (n * cw) px @ take cw (drop (n * pitch) data) @ drop (n * cw + cw) px)"
proof -
  have e: "Suc n * cw = n * cw + cw" "Suc n * pitch = n * pitch + pitch" by simp_all
  show ?thesis unfolding e by (rule copyRow_step_lin [OF fit src])
qed

lemma rows_copied_step:
  assumes inv: "rows_copied data cw pitch n pix px"
    and fit: "n * cw + cw \<le> length pix" and src: "n * pitch + cw \<le> length data"
  shows "rows_copied data cw pitch (Suc n) pix
           (take (n * cw) px @ take cw (drop (n * pitch) data) @ drop (n * cw + cw) px)"
proof -
  let ?px' = "take (n * cw) px @ take cw (drop (n * pitch) data) @ drop (n * cw + cw) px"
  from inv have len: "length px = length pix"
    and old: "\<And>row k. row < n \<Longrightarrow> k < cw \<Longrightarrow> px ! (row * cw + k) = data ! (row * pitch + k)"
    and rest: "\<And>p. p < length pix \<Longrightarrow> n * cw \<le> p \<Longrightarrow> px ! p = pix ! p"
    by (auto simp: rows_copied_def)
  have l1: "length (take (n * cw) px) = n * cw" using fit len by simp
  have l2: "length (take cw (drop (n * pitch) data)) = cw" using src by simp
  have lo: "\<And>p. p < n * cw \<Longrightarrow> ?px' ! p = px ! p"
    using l1 by (simp add: nth_append)
  have mid: "\<And>k. k < cw \<Longrightarrow> ?px' ! (n * cw + k) = data ! (n * pitch + k)"
    using l1 l2 src by (simp add: nth_append)
  have hi: "\<And>p. n * cw + cw \<le> p \<Longrightarrow> p < length pix \<Longrightarrow> ?px' ! p = px ! p"
  proof -
    fix p assume p: "n * cw + cw \<le> p" "p < length pix"
    have "?px' ! p = (take cw (drop (n * pitch) data) @ drop (n * cw + cw) px) ! (p - n * cw)"
      using l1 p by (simp add: nth_append)
    also have "\<dots> = drop (n * cw + cw) px ! (p - n * cw - cw)"
      using l2 p by (simp add: nth_append)
    also have "\<dots> = px ! p" using p len by simp
    finally show "?px' ! p = px ! p" .
  qed
  show ?thesis
    unfolding rows_copied_def
  proof (intro conjI allI impI)
    show "length ?px' = length pix" using l1 l2 fit len by simp
  next
    fix row k assume r: "row < Suc n" and k: "k < cw"
    show "?px' ! (row * cw + k) = data ! (row * pitch + k)"
    proof (cases "row = n")
      case True
      with mid [OF k] show ?thesis by simp
    next
      case False
      with r have rn: "row < n" by simp
      then have "Suc row \<le> n" by simp
      then have "Suc row * cw \<le> n * cw" by (rule mult_le_mono1)
      then have "row * cw + k < n * cw" using k by simp
      from lo [OF this] old [OF rn k] show ?thesis by simp
    qed
  next
    fix p assume p: "p < length pix" and ge: "Suc n * cw \<le> p"
    then have "n * cw + cw \<le> p" by simp
    from hi [OF this p] rest [of p] p ge show "?px' ! p = pix ! p" by simp
  qed
qed

lemma copy_loop:
  assumes "n \<le> height" and "cw \<le> pitch" and "height * pitch \<le> length data"
    and "height * cw \<le> length pix"
  shows "\<exists>px. for_upto n (copyRow data (int cw) (int pitch)) (0, 0, pix)
                 = Ok (int (n * cw), int (n * pitch), px)
              \<and> rows_copied data cw pitch n pix px"
  using assms(1)
proof (induction n)
  case 0
  then show ?case by (simp add: rows_copied_def)
next
  case (Suc n)
  then obtain px where run: "for_upto n (copyRow data (int cw) (int pitch)) (0, 0, pix)
                 = Ok (int (n * cw), int (n * pitch), px)"
    and inv: "rows_copied data cw pitch n pix px" by auto
  have "Suc n * cw \<le> height * cw" using Suc.prems by (intro mult_le_mono1)
  then have fit: "n * cw + cw \<le> length pix" using assms(4) by simp
  have "n * pitch + cw \<le> Suc n * pitch" using assms(2) by simp
  also have "\<dots> \<le> height * pitch" using Suc.prems by (intro mult_le_mono1)
  finally have src: "n * pitch + cw \<le> length data" using assms(3) by simp
  from inv have len: "length px = length pix" by (simp add: rows_copied_def)
  note st = copyRow_step [OF fit [folded len] src, of n]
  note inv' = rows_copied_step [OF inv fit src]
  from run st inv' show ?case by simp
qed


lemma length_swizzle_BGRA [simp]: "length (swizzle_BGRA xs) = length xs"
  by (induction xs rule: swizzle_BGRA.induct) simp_all

lemma swizzle_BGRA_nth:
  "4 * q + 3 < length xs \<Longrightarrow>
     swizzle_BGRA xs ! (4 * q) = xs ! (4 * q + 2)
     \<and> swizzle_BGRA xs ! (4 * q + 1) = xs ! (4 * q + 1)
     \<and> swizzle_BGRA xs ! (4 * q + 2) = xs ! (4 * q)
     \<and> swizzle_BGRA xs ! (4 * q + 3) = xs ! (4 * q + 3)"
proof (induction xs arbitrary: q rule: swizzle_BGRA.induct)
  case (1 b0 b1 b2 b3 rest)
  show ?case
  proof (cases q)
    case 0
    then show ?thesis by simp
  next
    case (Suc q')
    with "1.prems" have "4 * q' + 3 < length rest" by simp
    from "1.IH" [OF this] Suc show ?thesis
      by (simp add: numeral_3_eq_3 numeral_2_eq_2)
  qed
qed simp_all

text \<open>
  C6, for a destination that holds all the rows. The mapped memory has \<open>height\<close> rows of
  \<open>pitch\<close> bytes, \<open>width * 4 \<le> pitch\<close>, and the destination has at least
  \<open>width * 4 * height\<close> bytes. Then the row copy returns; byte \<open>k < width * 4\<close> of row
  \<open>row\<close> of the destination, at \<open>row * (width * 4) + k\<close>, is the byte of the source at
  \<open>row * pitch + k\<close>, so the bytes of the source from \<open>width * 4\<close> to \<open>pitch\<close> of a
  row go nowhere; the destination keeps its length and its bytes from
  \<open>height * (width * 4)\<close> on. The pixel transfer returns these bytes when the swizzle flag
  is not set, and when it is set the bytes with byte 0 and byte 2 of every 4-byte pixel of
  the whole destination exchanged and byte 1 and byte 3 in place.
\<close>

theorem pixel_transfer_discards_padding:
  fixes rect :: MAPPED_RECT and sz :: POINT and pix :: "byte list" and swz :: bool
  defines "width \<equiv> nat (sint (X sz))"
    and "height \<equiv> nat (sint (Y sz))"
    and "pitch \<equiv> nat (sint (Pitch rect))"
  assumes w0: "0 \<le> sint (X sz)" and h0: "0 \<le> sint (Y sz)"
    and wp: "sint (X sz) * 4 \<le> sint (Pitch rect)"
    and mem: "pitch * height \<le> length (PBits rect)"
    and dst: "width * 4 * height \<le> length pix"
  shows "\<exists>rows. copyRows rect sz pix = Ok rows \<and> length rows = length pix
      \<and> (\<forall>row<height. \<forall>k<width * 4.
            rows ! (row * (width * 4) + k) = PBits rect ! (row * pitch + k))
      \<and> (\<forall>p<length pix. height * (width * 4) \<le> p \<longrightarrow> rows ! p = pix ! p)
      \<and> transferPixels swz rect sz pix = Ok (if swz then swizzle_BGRA rows else rows)
      \<and> length (swizzle_BGRA rows) = length rows
      \<and> (\<forall>q. 4 * q + 3 < length rows \<longrightarrow>
            swizzle_BGRA rows ! (4 * q) = rows ! (4 * q + 2)
            \<and> swizzle_BGRA rows ! (4 * q + 1) = rows ! (4 * q + 1)
            \<and> swizzle_BGRA rows ! (4 * q + 2) = rows ! (4 * q)
            \<and> swizzle_BGRA rows ! (4 * q + 3) = rows ! (4 * q + 3))"
proof -
  define cw where "cw = width * 4"
  define data where "data = take (pitch * height) (PBits rect)"
  have p0: "0 \<le> sint (Pitch rect)" using w0 wp by simp
  have iw: "sint (X sz) = int width" and ih: "sint (Y sz) = int height"
    and ip: "sint (Pitch rect) = int pitch"
    using w0 h0 p0 by (simp_all add: width_def height_def pitch_def)
  have ds: "sint (Pitch rect) * sint (Y sz) = int (pitch * height)"
    by (simp add: ip ih)
  have cwi: "sint (X sz) * 4 = int cw" by (simp add: iw cw_def)
  have prod: "int pitch * int height = int (pitch * height)" by simp
  have le: "cw \<le> pitch" using wp by (simp add: iw ip cw_def flip: of_nat_mult) 
  have ld: "length data = pitch * height" using mem by (simp add: data_def)
  have 3: "height * pitch \<le> length data" by (simp add: ld mult.commute)
  have 4: "height * cw \<le> length pix" using dst by (simp add: cw_def mult.commute)
  from copy_loop [OF order_refl le 3 4]
  obtain rows where run: "for_upto height (copyRow data (int cw) (int pitch)) (0, 0, pix)
                 = Ok (int (height * cw), int (height * pitch), rows)"
    and inv: "rows_copied data cw pitch height pix rows" by blast
  have ok: "\<not> (int (pitch * height) < 0 \<or> int (length (PBits rect)) < int (pitch * height))"
  proof -
    define d where "d = pitch * height"
    have "\<not> (int d < 0 \<or> int (length (PBits rect)) < int d)"
      using mem by (simp add: d_def [symmetric])
    then show ?thesis unfolding d_def .
  qed
  have cr: "copyRows rect sz pix = Ok rows"
    unfolding copyRows_def Let_def cwi ip ih prod using ok run
    by (simp add: data_def del: of_nat_mult)
  have tp: "transferPixels swz rect sz pix = Ok (if swz then swizzle_BGRA rows else rows)"
    by (simp add: transferPixels_def cr)
  have len: "length rows = length pix" using inv by (simp add: rows_copied_def)
  have body: "\<forall>row<height. \<forall>k<width * 4.
            rows ! (row * (width * 4) + k) = PBits rect ! (row * pitch + k)"
  proof (intro allI impI)
    fix row k assume r: "row < height" and k: "k < width * 4"
    have "rows ! (row * cw + k) = data ! (row * pitch + k)"
      using inv r k by (simp add: rows_copied_def cw_def)
    moreover have "row * pitch + k < pitch * height"
    proof -
      have "row * pitch + k < row * pitch + pitch" using k le by (simp add: cw_def)
      also have "\<dots> = Suc row * pitch" by simp
      also have "\<dots> \<le> height * pitch" using r by (intro mult_le_mono1) simp
      finally show ?thesis by (simp add: mult.commute)
    qed
    ultimately show "rows ! (row * (width * 4) + k) = PBits rect ! (row * pitch + k)"
      by (simp add: data_def cw_def)
  qed
  have rest: "\<forall>p<length pix. height * (width * 4) \<le> p \<longrightarrow> rows ! p = pix ! p"
    using inv by (simp add: rows_copied_def cw_def)
  have sw: "\<forall>q. 4 * q + 3 < length rows \<longrightarrow>
            swizzle_BGRA rows ! (4 * q) = rows ! (4 * q + 2)
            \<and> swizzle_BGRA rows ! (4 * q + 1) = rows ! (4 * q + 1)
            \<and> swizzle_BGRA rows ! (4 * q + 2) = rows ! (4 * q)
            \<and> swizzle_BGRA rows ! (4 * q + 3) = rows ! (4 * q + 3)"
    using swizzle_BGRA_nth by blast
  show ?thesis
    using cr len body rest tp sw by (intro exI [of _ rows]) simp
qed


theorem pixel_transfer_discards_padding_witness:
  "copyRows paddedRect \<lparr>X = 2, Y = 2\<rparr> (replicate 16 0)
     = Ok [1, 2, 3, 4, 5, 6, 7, 8, 9, 10, 11, 12, 13, 14, 15, 16]
   \<and> transferPixels True paddedRect \<lparr>X = 2, Y = 2\<rparr> (replicate 16 0)
     = Ok [3, 2, 1, 4, 7, 6, 5, 8, 11, 10, 9, 12, 15, 14, 13, 16]"
proof -
  have h: "0 \<le> sint (X \<lparr>X = 2 :: int32, Y = 2 :: int32\<rparr>)"
    "0 \<le> sint (Y \<lparr>X = 2 :: int32, Y = 2 :: int32\<rparr>)"
    "sint (X \<lparr>X = 2 :: int32, Y = 2 :: int32\<rparr>) * 4 \<le> sint (Pitch paddedRect)"
    "nat (sint (Pitch paddedRect)) * nat (sint (Y \<lparr>X = 2 :: int32, Y = 2 :: int32\<rparr>))
       \<le> length (PBits paddedRect)"
    "nat (sint (X \<lparr>X = 2 :: int32, Y = 2 :: int32\<rparr>)) * 4
       * nat (sint (Y \<lparr>X = 2 :: int32, Y = 2 :: int32\<rparr>)) \<le> length (replicate 16 (0 :: byte))"
    by (simp_all add: paddedRect_def)
  from pixel_transfer_discards_padding [OF h, of True]
  obtain rows where cr: "copyRows paddedRect \<lparr>X = 2, Y = 2\<rparr> (replicate 16 0) = Ok rows"
    and tp: "transferPixels True paddedRect \<lparr>X = 2, Y = 2\<rparr> (replicate 16 0)
               = Ok (swizzle_BGRA rows)"
    by auto
  have "(case copyRows paddedRect \<lparr>X = 2, Y = 2\<rparr> (replicate 16 0) of
           Ok r \<Rightarrow> r = [1, 2, 3, 4, 5, 6, 7, 8, 9, 10, 11, 12, 13, 14, 15, 16]
         | Panic \<Rightarrow> False)"
    by code_simp
  with cr have rows: "rows = [1, 2, 3, 4, 5, 6, 7, 8, 9, 10, 11, 12, 13, 14, 15, 16]" by simp
  show ?thesis using cr tp by (simp add: rows)
qed

text \<open>
  The claim C6 as stated fails for a destination that is too short. The mapped memory has
  two rows of one pixel and a pitch of 8. A destination of 6 bytes receives the 4 bytes of
  the first row and only 2 bytes of the second; with a destination of 3 bytes the second
  round panics, \<open>imgStart = 4\<close> being beyond the destination.
\<close>

theorem short_destination_cuts_row:
  "sint (X \<lparr>X = 1 :: int32, Y = 2 :: int32\<rparr>) * 4 \<le> sint (Pitch narrowRect)
   \<and> length (PBits narrowRect) = 8 * 2
   \<and> copyRows narrowRect \<lparr>X = 1, Y = 2\<rparr> [0, 0, 0, 0, 0, 0] = Ok [1, 2, 3, 4, 9, 10]
   \<and> copyRows narrowRect \<lparr>X = 1, Y = 2\<rparr> [0, 0, 0] = Panic"
  by code_simp

section \<open>The cursor on the image\<close>
























end
